theory Spec2Isabelle
  imports Complex_Main
begin

section \<open>LLVM types as seen by codegen/Utils.h\<close>

text \<open>
  The utilities of \<^verbatim>\<open>codegen/Utils.h\<close> inspect \<^verbatim>\<open>llvm::Type\<close> objects only through
  \<^verbatim>\<open>isDoubleTy\<close>, \<^verbatim>\<open>isFloatTy\<close>, \<^verbatim>\<open>isIntegerTy\<close>, \<^verbatim>\<open>isFloatingPointTy\<close>, \<^verbatim>\<open>isPointerTy\<close>,
  \<^verbatim>\<open>getContainedType(0)\<close>, \<^verbatim>\<open>getArrayElementType\<close> and \<^verbatim>\<open>getArrayNumElements\<close>; the last
  three are pattern matches on \<open>PointerTy (ArrayTy ty n)\<close> below. LLVM types are unique
  per context, so pointer equality of types is structural equality here.
  \<open>HalfTy\<close> and \<open>FP128Ty\<close> stand for the floating-point types of LLVM other than
  \<^verbatim>\<open>float\<close> and \<^verbatim>\<open>double\<close>: \<^verbatim>\<open>isFloatingPointTy\<close> holds of them, \<^verbatim>\<open>isFloatTy\<close> and
  \<^verbatim>\<open>isDoubleTy\<close> do not.
\<close>

datatype llvm_type =
    VoidTy
  | HalfTy
  | FloatTy
  | DoubleTy
  | FP128Ty
  | IntegerTy nat
  | PointerTy llvm_type
  | ArrayTy llvm_type nat

fun isDoubleTy :: "llvm_type \<Rightarrow> bool" where
  "isDoubleTy DoubleTy = True"
| "isDoubleTy _ = False"

fun isFloatTy :: "llvm_type \<Rightarrow> bool" where
  "isFloatTy FloatTy = True"
| "isFloatTy _ = False"

fun isFloatingPointTy :: "llvm_type \<Rightarrow> bool" where
  "isFloatingPointTy HalfTy = True"
| "isFloatingPointTy FloatTy = True"
| "isFloatingPointTy DoubleTy = True"
| "isFloatingPointTy FP128Ty = True"
| "isFloatingPointTy _ = False"

fun isIntegerTy :: "llvm_type \<Rightarrow> bool" where
  "isIntegerTy (IntegerTy _) = True"
| "isIntegerTy _ = False"

text \<open>\<^verbatim>\<open>isIntegerTy(unsigned width)\<close>: an integer type of exactly that width.\<close>

fun isIntegerTyN :: "llvm_type \<Rightarrow> nat \<Rightarrow> bool" where
  "isIntegerTyN (IntegerTy w) n = (w = n)"
| "isIntegerTyN _ n = False"

fun isPointerTy :: "llvm_type \<Rightarrow> bool" where
  "isPointerTy (PointerTy _) = True"
| "isPointerTy _ = False"

text \<open>
  Modelled from the spec: \<^verbatim>\<open>isScalarType\<close> is declared in \<^verbatim>\<open>codegen/Types.h\<close>, which is not
  among the sources. The spec calls a type scalar when it is an integer or a floating-point
  type; the assertions of \<^verbatim>\<open>arithmeticConversion\<close> and \<^verbatim>\<open>arrayCast\<close> in \<^verbatim>\<open>Utils.h\<close> spell
  the same test out under the message "is not a scalar type".
\<close>

definition isScalarType :: "llvm_type \<Rightarrow> bool" where
  "isScalarType ty = (isIntegerTy ty \<or> isFloatingPointTy ty)"

text \<open>
  Modelled from the spec: \<^verbatim>\<open>LLVMType<T>::get\<close> is declared in \<^verbatim>\<open>codegen/Types.h\<close>. Each AX
  type maps to exactly one IR type, \<^verbatim>\<open>int64_t\<close> to \<^verbatim>\<open>i64\<close>.
\<close>

definition LLVMType_int64 :: llvm_type where
  "LLVMType_int64 = IntegerTy 64"

section \<open>Errors\<close>

text \<open>
  Every \<^verbatim>\<open>OPENVDB_THROW\<close> of the file is a branch returning \<open>Inl\<close> of the exception class;
  the message text (which needs \<^verbatim>\<open>operatorNameFromToken\<close> and the LLVM type printer) is
  not modelled. A failed \<^verbatim>\<open>assert\<close> is the error \<open>AssertionFailed\<close>.
\<close>

datatype error =
    LLVMTypeError
  | LLVMTokenError
  | LLVMBinaryOperationError
  | AssertionFailed

section \<open>typePrecedence\<close>

definition typePrecedence :: "llvm_type \<Rightarrow> llvm_type \<Rightarrow> error + llvm_type" where
  "typePrecedence typeA typeB =
     (if \<not> isScalarType typeA then Inl AssertionFailed
      else if \<not> isScalarType typeB then Inl AssertionFailed
      else if isDoubleTy typeA then Inr typeA
      else if isDoubleTy typeB then Inr typeB
      else if isFloatTy typeA then Inr typeA
      else if isFloatTy typeB then Inr typeB
      else if isIntegerTyN typeA 64 then Inr typeA
      else if isIntegerTyN typeB 64 then Inr typeB
      else if isIntegerTyN typeA 32 then Inr typeA
      else if isIntegerTyN typeB 32 then Inr typeB
      else if isIntegerTyN typeA 16 then Inr typeA
      else if isIntegerTyN typeB 16 then Inr typeB
      else if isIntegerTyN typeA 8 then Inr typeA
      else if isIntegerTyN typeB 8 then Inr typeB
      else if isIntegerTyN typeA 1 then Inr typeA
      else if isIntegerTyN typeB 1 then Inr typeB
      else Inl LLVMTypeError)"

text \<open>
  The spec's side of the comparison: the seven scalar types of the precedence order
  \<open>bool < i8 < i16 < i32 < i64 < f32 < f64\<close>, their position in it, and the larger of
  two types under it.
\<close>

definition ax_scalar_types :: "llvm_type list" where
  "ax_scalar_types =
     [IntegerTy 1, IntegerTy 8, IntegerTy 16, IntegerTy 32, IntegerTy 64, FloatTy, DoubleTy]"

fun spec_rank :: "llvm_type \<Rightarrow> nat" where
  "spec_rank (IntegerTy w) =
     (if w = 1 then 0 else if w = 8 then 1 else if w = 16 then 2
      else if w = 32 then 3 else 4)"
| "spec_rank FloatTy = 5"
| "spec_rank DoubleTy = 6"
| "spec_rank _ = 0"

definition spec_max :: "llvm_type \<Rightarrow> llvm_type \<Rightarrow> llvm_type" where
  "spec_max a b = (if spec_rank a < spec_rank b then b else a)"

section \<open>Operator tokens\<close>

text \<open>
  \<^verbatim>\<open>ast::tokens::OperatorToken\<close> and \<^verbatim>\<open>ast::tokens::OperatorType\<close> are declared in
  \<^verbatim>\<open>ast/Tokens.h\<close>, which is not among the sources. The tokens and operator types below
  are the enumerators that \<^verbatim>\<open>Utils.h\<close> names; \<open>OtherToken\<close> and \<open>OtherOperatorType\<close>
  stand for every further enumerator, which \<^verbatim>\<open>Utils.h\<close> can only reach in its
  "Unrecognised binary operator" branches. The classifier \<^verbatim>\<open>ast::tokens::operatorType\<close>
  is a parameter \<open>opT\<close> of the functions that call it.
\<close>

datatype OperatorToken =
    PLUS | MINUS | MULTIPLY | DIVIDE | MODULO
  | AND | OR
  | EQUALSEQUALS | NOTEQUALS | MORETHAN | LESSTHAN | MORETHANOREQUAL | LESSTHANOREQUAL
  | BITAND | BITOR | BITXOR
  | OtherToken nat

datatype OperatorType = LOGICAL | BITWISE | OtherOperatorType

text \<open>
  Modelled from the spec: \<^verbatim>\<open>ast::tokens::operatorType\<close> of \<^verbatim>\<open>ast/Tokens.h\<close>. The spec
  speaks of the logical short-circuit operators and of the bitwise operators; among the
  tokens that \<^verbatim>\<open>Utils.h\<close> names these are \<open>AND\<close>, \<open>OR\<close> and \<open>BITAND\<close>, \<open>BITOR\<close>,
  \<open>BITXOR\<close>. Used only to instantiate the parameter \<open>opT\<close> at concrete inputs.
\<close>

fun operatorType :: "OperatorToken \<Rightarrow> OperatorType" where
  "operatorType AND = LOGICAL"
| "operatorType OR = LOGICAL"
| "operatorType BITAND = BITWISE"
| "operatorType BITOR = BITWISE"
| "operatorType BITXOR = BITWISE"
| "operatorType _ = OtherOperatorType"

section \<open>The IRBuilder member functions bound by the conversions\<close>

text \<open>
  A \<^verbatim>\<open>CastFunction\<close> is an \<^verbatim>\<open>IRBuilder\<close> cast member bound by \<^verbatim>\<open>std::bind\<close>; a
  \<^verbatim>\<open>BinaryFunction\<close> is a bound binary member. \<^verbatim>\<open>CreateFCmpOEQ\<close> is
  \<^verbatim>\<open>CreateFCmp(FCMP_OEQ, ...)\<close> and so on, so comparisons carry LLVM's predicate.
\<close>

datatype CastFunction =
    CreateFPExt | CreateFPTrunc
  | CreateSIToFP | CreateUIToFP
  | CreateFPToSI | CreateFPToUI
  | CreateSExt | CreateZExt | CreateTrunc

datatype fcmp_predicate =
    FCMP_OEQ | FCMP_OGT | FCMP_OGE | FCMP_OLT | FCMP_OLE | FCMP_ONE | FCMP_ORD
  | FCMP_UNO | FCMP_UEQ | FCMP_UGT | FCMP_UGE | FCMP_ULT | FCMP_ULE | FCMP_UNE

datatype icmp_predicate =
    ICMP_EQ | ICMP_NE
  | ICMP_UGT | ICMP_UGE | ICMP_ULT | ICMP_ULE
  | ICMP_SGT | ICMP_SGE | ICMP_SLT | ICMP_SLE

datatype BinaryFunction =
    CreateFAdd | CreateFSub | CreateFMul | CreateFDiv | CreateFRem
  | CreateFCmp fcmp_predicate
  | CreateAdd | CreateSub | CreateMul | CreateSDiv | CreateSRem
  | CreateICmp icmp_predicate
  | CreateAnd | CreateOr | CreateXor

section \<open>llvmArithmeticConversion\<close>

definition llvmArithmeticConversion :: "llvm_type \<Rightarrow> llvm_type \<Rightarrow> error + CastFunction" where
  "llvmArithmeticConversion sourceType targetType =
     (if isDoubleTy targetType then
        (if isFloatTy sourceType then Inr CreateFPExt
         else if isIntegerTyN sourceType 64 then Inr CreateSIToFP
         else if isIntegerTyN sourceType 32 then Inr CreateSIToFP
         else if isIntegerTyN sourceType 16 then Inr CreateSIToFP
         else if isIntegerTyN sourceType 8 then Inr CreateSIToFP
         else if isIntegerTyN sourceType 1 then Inr CreateUIToFP
         else Inl LLVMTypeError)
      else if isFloatTy targetType then
        (if isDoubleTy sourceType then Inr CreateFPTrunc
         else if isIntegerTyN sourceType 64 then Inr CreateSIToFP
         else if isIntegerTyN sourceType 32 then Inr CreateSIToFP
         else if isIntegerTyN sourceType 16 then Inr CreateSIToFP
         else if isIntegerTyN sourceType 8 then Inr CreateSIToFP
         else if isIntegerTyN sourceType 1 then Inr CreateUIToFP
         else Inl LLVMTypeError)
      else if isIntegerTyN targetType 64 then
        (if isDoubleTy sourceType then Inr CreateFPToSI
         else if isFloatTy sourceType then Inr CreateFPToSI
         else if isIntegerTyN sourceType 32 then Inr CreateSExt
         else if isIntegerTyN sourceType 16 then Inr CreateSExt
         else if isIntegerTyN sourceType 8 then Inr CreateSExt
         else if isIntegerTyN sourceType 1 then Inr CreateZExt
         else Inl LLVMTypeError)
      else if isIntegerTyN targetType 32 then
        (if isDoubleTy sourceType then Inr CreateFPToSI
         else if isFloatTy sourceType then Inr CreateFPToSI
         else if isIntegerTyN sourceType 64 then Inr CreateTrunc
         else if isIntegerTyN sourceType 16 then Inr CreateSExt
         else if isIntegerTyN sourceType 8 then Inr CreateSExt
         else if isIntegerTyN sourceType 1 then Inr CreateZExt
         else Inl LLVMTypeError)
      else if isIntegerTyN targetType 16 then
        (if isDoubleTy sourceType then Inr CreateFPToSI
         else if isFloatTy sourceType then Inr CreateFPToSI
         else if isIntegerTyN sourceType 64 then Inr CreateTrunc
         else if isIntegerTyN sourceType 32 then Inr CreateTrunc
         else if isIntegerTyN sourceType 8 then Inr CreateSExt
         else if isIntegerTyN sourceType 1 then Inr CreateZExt
         else Inl LLVMTypeError)
      else if isIntegerTyN targetType 8 then
        (if isDoubleTy sourceType then Inr CreateFPToSI
         else if isFloatTy sourceType then Inr CreateFPToSI
         else if isIntegerTyN sourceType 64 then Inr CreateTrunc
         else if isIntegerTyN sourceType 32 then Inr CreateTrunc
         else if isIntegerTyN sourceType 16 then Inr CreateTrunc
         else if isIntegerTyN sourceType 1 then Inr CreateZExt
         else Inl LLVMTypeError)
      else if isIntegerTyN targetType 1 then
        (if isDoubleTy sourceType then Inr CreateFPToUI
         else if isFloatTy sourceType then Inr CreateFPToUI
         else if isIntegerTyN sourceType 64 then Inr CreateTrunc
         else if isIntegerTyN sourceType 32 then Inr CreateTrunc
         else if isIntegerTyN sourceType 16 then Inr CreateTrunc
         else if isIntegerTyN sourceType 8 then Inr CreateTrunc
         else Inl LLVMTypeError)
      else Inl LLVMTypeError)"

section \<open>llvmBinaryConversion\<close>

definition llvmBinaryConversion ::
  "(OperatorToken \<Rightarrow> OperatorType) \<Rightarrow> llvm_type \<Rightarrow> OperatorToken \<Rightarrow> error + BinaryFunction"
where
  "llvmBinaryConversion opT type token =
     (if isFloatingPointTy type then
        (if opT token = LOGICAL \<or> opT token = BITWISE then Inl LLVMBinaryOperationError
         else if token = PLUS then Inr CreateFAdd
         else if token = MINUS then Inr CreateFSub
         else if token = MULTIPLY then Inr CreateFMul
         else if token = DIVIDE then Inr CreateFDiv
         else if token = MODULO then Inr CreateFRem
         else if token = EQUALSEQUALS then Inr (CreateFCmp FCMP_OEQ)
         else if token = NOTEQUALS then Inr (CreateFCmp FCMP_ONE)
         else if token = MORETHAN then Inr (CreateFCmp FCMP_OGT)
         else if token = LESSTHAN then Inr (CreateFCmp FCMP_OLT)
         else if token = MORETHANOREQUAL then Inr (CreateFCmp FCMP_OGE)
         else if token = LESSTHANOREQUAL then Inr (CreateFCmp FCMP_OLE)
         else Inl LLVMTokenError)
      else if isIntegerTy type then
        (if token = PLUS then Inr CreateAdd
         else if token = MINUS then Inr CreateSub
         else if token = MULTIPLY then Inr CreateMul
         else if token = DIVIDE then Inr CreateSDiv
         else if token = MODULO then Inr CreateSRem
         else if token = EQUALSEQUALS then Inr (CreateICmp ICMP_EQ)
         else if token = NOTEQUALS then Inr (CreateICmp ICMP_NE)
         else if token = MORETHAN then Inr (CreateICmp ICMP_SGT)
         else if token = LESSTHAN then Inr (CreateICmp ICMP_SLT)
         else if token = MORETHANOREQUAL then Inr (CreateICmp ICMP_SGE)
         else if token = LESSTHANOREQUAL then Inr (CreateICmp ICMP_SLE)
         else if token = AND then Inr CreateAnd
         else if token = OR then Inr CreateOr
         else if token = BITAND then Inr CreateAnd
         else if token = BITOR then Inr CreateOr
         else if token = BITXOR then Inr CreateXor
         else Inl LLVMTokenError)
      else Inl LLVMTypeError)"

section \<open>What the operations compute\<close>

text \<open>
  Several properties speak of the value the generated code computes, and the builder
  itself computes operations on constants. This section gives the meaning of the
  operations concerned, after the LLVM language reference: the comparison predicates, the
  integer arithmetic and bitwise operations, the integer casts and the conversions from
  floating point to integer. Floating-point arithmetic and the conversions that round are
  outside this fragment (\<open>None\<close>).

  A floating-point value is a NaN, an infinity or a finite number; both zeros are the
  finite number \<open>0\<close>, which is what the comparisons see. An integer of width \<open>w\<close> is its
  bit pattern, a natural number below \<open>2 ^ w\<close>. \<open>RPoison\<close> is the result of an operation
  that has no defined value.
\<close>

datatype fp_value = FNaN | FNegInf | FFinite rat | FPosInf

datatype rt_value =
    RInt nat nat
  | RFloat fp_value
  | RPtr nat
  | RElemPtr nat nat
  | RPoison
  | RUndef

fun fp_lt :: "fp_value \<Rightarrow> fp_value \<Rightarrow> bool" where
  "fp_lt FNegInf (FFinite _) = True"
| "fp_lt FNegInf FPosInf = True"
| "fp_lt (FFinite x) (FFinite y) = (x < y)"
| "fp_lt (FFinite _) FPosInf = True"
| "fp_lt _ _ = False"

definition fp_unordered :: "fp_value \<Rightarrow> fp_value \<Rightarrow> bool" where
  "fp_unordered a b = (a = FNaN \<or> b = FNaN)"

text \<open>
  An ordered predicate holds when neither operand is a NaN and the relation holds; an
  unordered one when either operand is a NaN or the relation holds.
\<close>

fun sem_fcmp :: "fcmp_predicate \<Rightarrow> fp_value \<Rightarrow> fp_value \<Rightarrow> bool" where
  "sem_fcmp FCMP_OEQ a b = (\<not> fp_unordered a b \<and> a = b)"
| "sem_fcmp FCMP_OGT a b = (\<not> fp_unordered a b \<and> fp_lt b a)"
| "sem_fcmp FCMP_OGE a b = (\<not> fp_unordered a b \<and> (fp_lt b a \<or> a = b))"
| "sem_fcmp FCMP_OLT a b = (\<not> fp_unordered a b \<and> fp_lt a b)"
| "sem_fcmp FCMP_OLE a b = (\<not> fp_unordered a b \<and> (fp_lt a b \<or> a = b))"
| "sem_fcmp FCMP_ONE a b = (\<not> fp_unordered a b \<and> a \<noteq> b)"
| "sem_fcmp FCMP_ORD a b = (\<not> fp_unordered a b)"
| "sem_fcmp FCMP_UNO a b = fp_unordered a b"
| "sem_fcmp FCMP_UEQ a b = (fp_unordered a b \<or> a = b)"
| "sem_fcmp FCMP_UGT a b = (fp_unordered a b \<or> fp_lt b a)"
| "sem_fcmp FCMP_UGE a b = (fp_unordered a b \<or> fp_lt b a \<or> a = b)"
| "sem_fcmp FCMP_ULT a b = (fp_unordered a b \<or> fp_lt a b)"
| "sem_fcmp FCMP_ULE a b = (fp_unordered a b \<or> fp_lt a b \<or> a = b)"
| "sem_fcmp FCMP_UNE a b = (fp_unordered a b \<or> a \<noteq> b)"

definition signed_of :: "nat \<Rightarrow> nat \<Rightarrow> int" where
  "signed_of w n = (if 2 * n < 2 ^ w then int n else int n - 2 ^ w)"

fun sem_icmp :: "icmp_predicate \<Rightarrow> nat \<Rightarrow> nat \<Rightarrow> nat \<Rightarrow> bool" where
  "sem_icmp ICMP_EQ w a b = (a = b)"
| "sem_icmp ICMP_NE w a b = (a \<noteq> b)"
| "sem_icmp ICMP_UGT w a b = (b < a)"
| "sem_icmp ICMP_UGE w a b = (b \<le> a)"
| "sem_icmp ICMP_ULT w a b = (a < b)"
| "sem_icmp ICMP_ULE w a b = (a \<le> b)"
| "sem_icmp ICMP_SGT w a b = (signed_of w b < signed_of w a)"
| "sem_icmp ICMP_SGE w a b = (signed_of w b \<le> signed_of w a)"
| "sem_icmp ICMP_SLT w a b = (signed_of w a < signed_of w b)"
| "sem_icmp ICMP_SLE w a b = (signed_of w a \<le> signed_of w b)"

definition bool_value :: "bool \<Rightarrow> rt_value" where
  "bool_value c = RInt 1 (if c then 1 else 0)"

text \<open>
  Signed division rounds towards zero, and the remainder has the sign of the dividend.
  Division by zero, and the overflowing division of the least integer by \<open>-1\<close>, have no
  defined value.
\<close>

definition sdiv_int :: "int \<Rightarrow> int \<Rightarrow> int" where
  "sdiv_int a b = sgn a * sgn b * (\<bar>a\<bar> div \<bar>b\<bar>)"

definition srem_int :: "int \<Rightarrow> int \<Rightarrow> int" where
  "srem_int a b = a - b * sdiv_int a b"

definition sdiv_undefined :: "nat \<Rightarrow> nat \<Rightarrow> nat \<Rightarrow> bool" where
  "sdiv_undefined w a b = (b = 0 \<or> (2 * a = 2 ^ w \<and> signed_of w b = - 1))"

definition sem_binary :: "BinaryFunction \<Rightarrow> rt_value \<Rightarrow> rt_value \<Rightarrow> rt_value option" where
  "sem_binary f x y =
     (case x of
        RFloat a \<Rightarrow>
          (case y of
             RFloat b \<Rightarrow>
               (case f of CreateFCmp p \<Rightarrow> Some (bool_value (sem_fcmp p a b)) | _ \<Rightarrow> None)
           | _ \<Rightarrow> None)
      | RInt w a \<Rightarrow>
          (case y of
             RInt w' b \<Rightarrow>
               (if w = w' then
                  (case f of
                     CreateICmp p \<Rightarrow> Some (bool_value (sem_icmp p w a b))
                   | CreateAnd \<Rightarrow> Some (RInt w (and a b))
                   | CreateOr \<Rightarrow> Some (RInt w (or a b))
                   | CreateXor \<Rightarrow> Some (RInt w (xor a b))
                   | CreateAdd \<Rightarrow> Some (RInt w ((a + b) mod 2 ^ w))
                   | CreateSub \<Rightarrow> Some (RInt w (nat ((int a - int b) mod 2 ^ w)))
                   | CreateMul \<Rightarrow> Some (RInt w ((a * b) mod 2 ^ w))
                   | CreateSDiv \<Rightarrow>
                       Some (if sdiv_undefined w a b then RPoison
                             else RInt w (nat (sdiv_int (signed_of w a) (signed_of w b) mod 2 ^ w)))
                   | CreateSRem \<Rightarrow>
                       Some (if sdiv_undefined w a b then RPoison
                             else RInt w (nat (srem_int (signed_of w a) (signed_of w b) mod 2 ^ w)))
                   | _ \<Rightarrow> None)
                else None)
           | _ \<Rightarrow> None)
      | _ \<Rightarrow> None)"

text \<open>Rounding towards zero, as \<^verbatim>\<open>fptoui\<close> and \<^verbatim>\<open>fptosi\<close> do.\<close>

definition round_to_zero :: "rat \<Rightarrow> int" where
  "round_to_zero q = (if 0 \<le> q then \<lfloor>q\<rfloor> else \<lceil>q\<rceil>)"

text \<open>
  \<^verbatim>\<open>fptoui\<close> and \<^verbatim>\<open>fptosi\<close> have no defined value (poison) when the rounded value does
  not fit the target type, and so for a NaN or an infinity.
\<close>

definition sem_cast :: "CastFunction \<Rightarrow> rt_value \<Rightarrow> llvm_type \<Rightarrow> rt_value option" where
  "sem_cast f x ty =
     (case ty of
        IntegerTy w' \<Rightarrow>
          (case x of
             RInt w n \<Rightarrow>
               (case f of
                  CreateTrunc \<Rightarrow> Some (RInt w' (n mod 2 ^ w'))
                | CreateZExt \<Rightarrow> Some (RInt w' n)
                | CreateSExt \<Rightarrow> Some (RInt w' (nat (signed_of w n mod 2 ^ w')))
                | _ \<Rightarrow> None)
           | RFloat v \<Rightarrow>
               (case f of
                  CreateFPToUI \<Rightarrow>
                    (case v of
                       FFinite q \<Rightarrow>
                         Some (if 0 \<le> round_to_zero q \<and> round_to_zero q < 2 ^ w'
                               then RInt w' (nat (round_to_zero q)) else RPoison)
                     | _ \<Rightarrow> Some RPoison)
                | CreateFPToSI \<Rightarrow>
                    (case v of
                       FFinite q \<Rightarrow>
                         Some (if - (2 ^ w') \<le> 2 * round_to_zero q \<and> 2 * round_to_zero q < 2 ^ w'
                               then RInt w' (nat (round_to_zero q mod 2 ^ w')) else RPoison)
                     | _ \<Rightarrow> Some RPoison)
                | _ \<Rightarrow> None)
           | _ \<Rightarrow> None)
      | _ \<Rightarrow> None)"


section \<open>Values and the IRBuilder\<close>

text \<open>
  An \<^verbatim>\<open>llvm::Value*\<close> is a function argument (any value that exists before the builder is
  used and is not a constant), a constant, or the result of an instruction the builder has
  inserted. The builder is the sequence of instructions inserted so far; the result of an
  instruction is named by its position in that sequence.

  A constant is an integer or floating-point literal, or what the builder's constant
  folder returns for an operation on constants. Where the operation is in the fragment of
  the previous section and has a defined integer value, the folded constant is that
  integer literal. Otherwise (floating-point arithmetic, conversions that round,
  operations without a defined value, element pointers of constant pointers) it is not
  computed here and is named by the operation folded: \<open>FoldedCast\<close>, \<open>FoldedBinary\<close>,
  \<open>FoldedGEP\<close>.
\<close>

datatype llvm_value =
    Argument nat llvm_type
  | ConstantInt llvm_type int
  | ConstantFP llvm_type rat
  | FoldedCast CastFunction llvm_value llvm_type
  | FoldedBinary BinaryFunction llvm_value llvm_value
  | FoldedGEP llvm_value nat nat
  | Register nat llvm_type

fun binaryResultType :: "BinaryFunction \<Rightarrow> llvm_type \<Rightarrow> llvm_type" where
  "binaryResultType (CreateFCmp _) ty = IntegerTy 1"
| "binaryResultType (CreateICmp _) ty = IntegerTy 1"
| "binaryResultType _ ty = ty"

text \<open>
  \<^verbatim>\<open>CreateConstGEP2_64(ptr, 0, i)\<close> on a pointer to an array is a pointer to an element;
  the utilities call it on nothing else, and the result type is \<open>VoidTy\<close> there.
\<close>

fun gepResultType :: "llvm_type \<Rightarrow> llvm_type" where
  "gepResultType (PointerTy (ArrayTy ty _)) = PointerTy ty"
| "gepResultType _ = VoidTy"

fun loadResultType :: "llvm_type \<Rightarrow> llvm_type" where
  "loadResultType (PointerTy ty) = ty"
| "loadResultType _ = VoidTy"

fun getType :: "llvm_value \<Rightarrow> llvm_type" where
  "getType (Argument _ ty) = ty"
| "getType (ConstantInt ty _) = ty"
| "getType (ConstantFP ty _) = ty"
| "getType (FoldedCast _ _ ty) = ty"
| "getType (FoldedBinary f a _) = binaryResultType f (getType a)"
| "getType (FoldedGEP p _ _) = gepResultType (getType p)"
| "getType (Register _ ty) = ty"

text \<open>\<^verbatim>\<open>isa<llvm::Constant>\<close>.\<close>

fun isConstant :: "llvm_value \<Rightarrow> bool" where
  "isConstant (Argument _ _) = False"
| "isConstant (Register _ _) = False"
| "isConstant _ = True"

text \<open>The value a constant denotes, where the fragment of the previous section gives one.\<close>

fun const_value :: "llvm_value \<Rightarrow> rt_value option" where
  "const_value (ConstantInt ty i) =
     (case ty of IntegerTy w \<Rightarrow> Some (RInt w (nat (i mod 2 ^ w))) | _ \<Rightarrow> None)"
| "const_value (ConstantFP ty q) = Some (RFloat (FFinite q))"
| "const_value (FoldedCast f c ty) =
     (case const_value c of None \<Rightarrow> None | Some x \<Rightarrow> sem_cast f x ty)"
| "const_value (FoldedBinary f a b) =
     (case const_value a of
        None \<Rightarrow> None
      | Some x \<Rightarrow> (case const_value b of None \<Rightarrow> None | Some y \<Rightarrow> sem_binary f x y))"
| "const_value (FoldedGEP _ _ _) = None"
| "const_value (Argument _ _) = None"
| "const_value (Register _ _) = None"

text \<open>
  The constant folder (\<^verbatim>\<open>llvm::ConstantFolder\<close>, the default of \<^verbatim>\<open>llvm::IRBuilder<>\<close>): the
  integer literal of the value when there is one, the constant named by the operation
  otherwise.
\<close>

definition as_literal :: "rt_value option \<Rightarrow> llvm_value \<Rightarrow> llvm_value" where
  "as_literal r uncomputed =
     (case r of
        Some (RInt w n) \<Rightarrow> ConstantInt (IntegerTy w) (int n)
      | _ \<Rightarrow> uncomputed)"

definition fold_cast :: "CastFunction \<Rightarrow> llvm_value \<Rightarrow> llvm_type \<Rightarrow> llvm_value" where
  "fold_cast f c ty = as_literal (const_value (FoldedCast f c ty)) (FoldedCast f c ty)"

definition fold_binary :: "BinaryFunction \<Rightarrow> llvm_value \<Rightarrow> llvm_value \<Rightarrow> llvm_value" where
  "fold_binary f a b = as_literal (const_value (FoldedBinary f a b)) (FoldedBinary f a b)"

text \<open>
  \<^verbatim>\<open>isa<ConstantInt>(RC) && cast<ConstantInt>(RC)->isAllOnesValue()\<close>, and
  \<^verbatim>\<open>RC->isNullValue()\<close> on the integer operands that \<^verbatim>\<open>CreateOr\<close> takes.
\<close>

fun isAllOnesConstantInt :: "llvm_value \<Rightarrow> bool" where
  "isAllOnesConstantInt (ConstantInt (IntegerTy w) i) = (i mod 2 ^ w = 2 ^ w - 1)"
| "isAllOnesConstantInt _ = False"

fun isNullConstantInt :: "llvm_value \<Rightarrow> bool" where
  "isNullConstantInt (ConstantInt (IntegerTy w) i) = (i mod 2 ^ w = 0)"
| "isNullConstantInt _ = False"

datatype instruction =
    CastInst CastFunction llvm_value llvm_type
  | BinaryInst BinaryFunction llvm_value llvm_value
  | AllocaInst llvm_type
  | GEP2Inst llvm_value nat nat
  | LoadInst llvm_value
  | StoreInst llvm_value llvm_value

type_synonym IRBuilder = "instruction list"

definition insert_instruction ::
  "instruction \<Rightarrow> llvm_type \<Rightarrow> IRBuilder \<Rightarrow> llvm_value \<times> IRBuilder" where
  "insert_instruction i ty builder = (Register (length builder) ty, builder @ [i])"

text \<open>
  The \<^verbatim>\<open>Create...\<close> members follow \<^verbatim>\<open>llvm/IR/IRBuilder.h\<close> of LLVM 5.0, the release that
  \<^verbatim>\<open>Utils.h\<close> names. \<^verbatim>\<open>CreateCast\<close>, which \<^verbatim>\<open>CreateFPExt\<close>, \<^verbatim>\<open>CreateTrunc\<close> and the other
  cast members call, returns its operand when the type is already the target, folds a
  constant operand and inserts nothing, and inserts the cast instruction otherwise. The
  binary and comparison members fold two constant operands and insert nothing;
  \<^verbatim>\<open>CreateAnd\<close> returns the left operand when the right one is the all-ones integer, and
  \<^verbatim>\<open>CreateOr\<close> when the right one is zero. \<^verbatim>\<open>CreateConstGEP2_64\<close> folds a constant pointer.
  \<^verbatim>\<open>CreateAlloca\<close>, \<^verbatim>\<open>CreateLoad\<close> and \<^verbatim>\<open>CreateStore\<close> always insert.
\<close>

definition CreateCast ::
  "CastFunction \<Rightarrow> llvm_value \<Rightarrow> llvm_type \<Rightarrow> IRBuilder \<Rightarrow> llvm_value \<times> IRBuilder" where
  "CreateCast f v destTy builder =
     (if getType v = destTy then (v, builder)
      else if isConstant v then (fold_cast f v destTy, builder)
      else insert_instruction (CastInst f v destTy) destTy builder)"

definition CreateBinary ::
  "BinaryFunction \<Rightarrow> llvm_value \<Rightarrow> llvm_value \<Rightarrow> IRBuilder \<Rightarrow> llvm_value \<times> IRBuilder" where
  "CreateBinary f lhs rhs builder =
     (if f = CreateAnd \<and> isAllOnesConstantInt rhs then (lhs, builder)
      else if f = CreateOr \<and> isNullConstantInt rhs then (lhs, builder)
      else if isConstant lhs \<and> isConstant rhs then (fold_binary f lhs rhs, builder)
      else insert_instruction (BinaryInst f lhs rhs) (binaryResultType f (getType lhs)) builder)"

definition CreateAlloca :: "llvm_type \<Rightarrow> IRBuilder \<Rightarrow> llvm_value \<times> IRBuilder" where
  "CreateAlloca ty builder = insert_instruction (AllocaInst ty) (PointerTy ty) builder"

definition CreateConstGEP2_64 ::
  "llvm_value \<Rightarrow> nat \<Rightarrow> nat \<Rightarrow> IRBuilder \<Rightarrow> llvm_value \<times> IRBuilder" where
  "CreateConstGEP2_64 ptr idx0 idx1 builder =
     (if isConstant ptr then (FoldedGEP ptr idx0 idx1, builder)
      else insert_instruction (GEP2Inst ptr idx0 idx1) (gepResultType (getType ptr)) builder)"

definition CreateLoad :: "llvm_value \<Rightarrow> IRBuilder \<Rightarrow> llvm_value \<times> IRBuilder" where
  "CreateLoad ptr builder =
     insert_instruction (LoadInst ptr) (loadResultType (getType ptr)) builder"

definition CreateStore :: "llvm_value \<Rightarrow> llvm_value \<Rightarrow> IRBuilder \<Rightarrow> IRBuilder" where
  "CreateStore val ptr builder = builder @ [StoreInst val ptr]"

section \<open>arithmeticConversion and arrayCast\<close>

text \<open>
  Functions that take the builder by reference return it next to their result, also when
  they throw: instructions inserted before a throw stay inserted.
\<close>

definition arithmeticConversion ::
  "llvm_value \<Rightarrow> llvm_type \<Rightarrow> IRBuilder \<Rightarrow> (error + llvm_value) \<times> IRBuilder" where
  "arithmeticConversion val targetType builder =
     (if \<not> (isIntegerTy (getType val) \<or> isFloatingPointTy (getType val))
        then (Inl AssertionFailed, builder)
      else if \<not> (isIntegerTy targetType \<or> isFloatingPointTy targetType)
        then (Inl AssertionFailed, builder)
      else if getType val = targetType then (Inr val, builder)
      else (case llvmArithmeticConversion (getType val) targetType of
              Inl e \<Rightarrow> (Inl e, builder)
            | Inr llvmCastFunction \<Rightarrow>
                (case CreateCast llvmCastFunction val targetType builder of
                   (r, builder') \<Rightarrow> (Inr r, builder'))))"

function arrayCast_loop ::
  "CastFunction \<Rightarrow> llvm_value \<Rightarrow> llvm_value \<Rightarrow> llvm_type \<Rightarrow> nat \<Rightarrow> nat \<Rightarrow> IRBuilder \<Rightarrow> IRBuilder"
where
  "arrayCast_loop llvmCastFunction ptrToArray targetArray targetElementType elementSize i builder =
     (if i < elementSize then
        (case CreateConstGEP2_64 targetArray 0 i builder of (target, b1) \<Rightarrow>
         case CreateConstGEP2_64 ptrToArray 0 i b1 of (source, b2) \<Rightarrow>
         case CreateLoad source b2 of (loaded, b3) \<Rightarrow>
         case CreateCast llvmCastFunction loaded targetElementType b3 of (converted, b4) \<Rightarrow>
           arrayCast_loop llvmCastFunction ptrToArray targetArray targetElementType elementSize
             (Suc i) (CreateStore converted target b4))
      else builder)"
  by pat_completeness auto
termination
  by (relation "measure (\<lambda>(f, p, t, ty, n, i, b). n - i)") auto

definition arrayCast ::
  "llvm_value \<Rightarrow> llvm_type \<Rightarrow> IRBuilder \<Rightarrow> (error + llvm_value) \<times> IRBuilder" where
  "arrayCast ptrToArray targetElementType builder =
     (if \<not> (isIntegerTy targetElementType \<or> isFloatingPointTy targetElementType)
        then (Inl AssertionFailed, builder)
      else if \<not> isPointerTy (getType ptrToArray) then (Inl AssertionFailed, builder)
      else (case getType ptrToArray of
              PointerTy (ArrayTy sourceElementType elementSize) \<Rightarrow>
                (if \<not> (isIntegerTy sourceElementType \<or> isFloatingPointTy sourceElementType)
                   then (Inl AssertionFailed, builder)
                 else if sourceElementType = targetElementType then (Inr ptrToArray, builder)
                 else (case llvmArithmeticConversion sourceElementType targetElementType of
                         Inl e \<Rightarrow> (Inl e, builder)
                       | Inr llvmCastFunction \<Rightarrow>
                           (case CreateAlloca (ArrayTy targetElementType elementSize) builder of
                              (targetArray, b1) \<Rightarrow>
                                (Inr targetArray,
                                 arrayCast_loop llvmCastFunction ptrToArray targetArray
                                   targetElementType elementSize 0 b1))))
            | _ \<Rightarrow> (Inl AssertionFailed, builder)))"

section \<open>boolComparison and binaryOperator\<close>

definition boolComparison ::
  "llvm_value \<Rightarrow> IRBuilder \<Rightarrow> (error + llvm_value) \<times> IRBuilder" where
  "boolComparison val builder =
     (if isFloatingPointTy (getType val) then
        (case CreateBinary (CreateFCmp FCMP_ONE) val (ConstantFP (getType val) 0) builder of
           (r, builder') \<Rightarrow> (Inr r, builder'))
      else if isIntegerTyN (getType val) 1 then
        (case CreateBinary (CreateICmp ICMP_NE) val (ConstantInt (getType val) 0) builder of
           (r, builder') \<Rightarrow> (Inr r, builder'))
      else if isIntegerTy (getType val) then
        (case CreateBinary (CreateICmp ICMP_NE) val (ConstantInt (getType val) 0) builder of
           (r, builder') \<Rightarrow> (Inr r, builder'))
      else (Inl LLVMTypeError, builder))"

text \<open>
  The optional \<^verbatim>\<open>std::string* warnings\<close> is \<open>None\<close> for the null pointer and \<open>Some s\<close> for a
  string holding \<open>s\<close>; the function returns its final content.
\<close>

definition setWarning :: "string option \<Rightarrow> string option" where
  "setWarning warnings =
     (case warnings of None \<Rightarrow> None | Some _ \<Rightarrow> Some ''Implicit cast from float to int.'')"

definition binaryOperator_apply ::
  "(OperatorToken \<Rightarrow> OperatorType) \<Rightarrow> llvm_value \<Rightarrow> llvm_value \<Rightarrow> OperatorToken \<Rightarrow>
   IRBuilder \<Rightarrow> string option \<Rightarrow> (error + llvm_value) \<times> IRBuilder \<times> string option" where
  "binaryOperator_apply opT lhs rhs token builder warnings =
     (case llvmBinaryConversion opT (getType lhs) token of
        Inl e \<Rightarrow> (Inl e, builder, warnings)
      | Inr llvmBinaryFunction \<Rightarrow>
          (case CreateBinary llvmBinaryFunction lhs rhs builder of
             (r, builder') \<Rightarrow> (Inr r, builder', warnings)))"

definition binaryOperator ::
  "(OperatorToken \<Rightarrow> OperatorType) \<Rightarrow> llvm_value \<Rightarrow> llvm_value \<Rightarrow> OperatorToken \<Rightarrow>
   IRBuilder \<Rightarrow> string option \<Rightarrow> (error + llvm_value) \<times> IRBuilder \<times> string option" where
  "binaryOperator opT lhs rhs token builder warnings =
     (if getType lhs \<noteq> getType rhs then (Inl LLVMTypeError, builder, warnings)
      else if opT token = LOGICAL then
        (case boolComparison lhs builder of
           (Inl e, b1) \<Rightarrow> (Inl e, b1, warnings)
         | (Inr lhs', b1) \<Rightarrow>
             (case boolComparison rhs b1 of
                (Inl e, b2) \<Rightarrow> (Inl e, b2, warnings)
              | (Inr rhs', b2) \<Rightarrow> binaryOperator_apply opT lhs' rhs' token b2 warnings))
      else if opT token = BITWISE \<and> isFloatingPointTy (getType lhs) then
        (case arithmeticConversion rhs LLVMType_int64 builder of
           (Inl e, b1) \<Rightarrow> (Inl e, b1, warnings)
         | (Inr rhs', b1) \<Rightarrow>
             (case arithmeticConversion lhs LLVMType_int64 b1 of
                (Inl e, b2) \<Rightarrow> (Inl e, b2, warnings)
              | (Inr lhs', b2) \<Rightarrow>
                  binaryOperator_apply opT lhs' rhs' token b2 (setWarning warnings)))
      else binaryOperator_apply opT lhs rhs token builder warnings)"

section \<open>Array packing and unpacking\<close>

function arrayUnpack_loop ::
  "llvm_value \<Rightarrow> bool \<Rightarrow> nat \<Rightarrow> nat \<Rightarrow> llvm_value list \<Rightarrow> IRBuilder \<Rightarrow>
   llvm_value list \<times> IRBuilder" where
  "arrayUnpack_loop ptrToArray loadElements elements i vals builder =
     (if i < elements then
        (case CreateConstGEP2_64 ptrToArray 0 i builder of (v, b1) \<Rightarrow>
           (if loadElements then
              (case CreateLoad v b1 of (v', b2) \<Rightarrow>
                 arrayUnpack_loop ptrToArray loadElements elements (Suc i) (vals @ [v']) b2)
            else arrayUnpack_loop ptrToArray loadElements elements (Suc i) (vals @ [v]) b1))
      else (vals, builder))"
  by pat_completeness auto
termination
  by (relation "measure (\<lambda>(p, l, n, i, vs, b). n - i)") auto

text \<open>
  \<^verbatim>\<open>arrayUnpack\<close> reads the element count off the type without a check of its own;
  LLVM's accessors assert that the type is a pointer to an array.
\<close>

definition arrayUnpack ::
  "llvm_value \<Rightarrow> llvm_value list \<Rightarrow> IRBuilder \<Rightarrow> bool \<Rightarrow>
   (error + llvm_value list) \<times> IRBuilder" where
  "arrayUnpack ptrToArray vals builder loadElements =
     (case getType ptrToArray of
        PointerTy (ArrayTy _ elements) \<Rightarrow>
          (case arrayUnpack_loop ptrToArray loadElements elements 0 vals builder of
             (vals', builder') \<Rightarrow> (Inr vals', builder'))
      | _ \<Rightarrow> (Inl AssertionFailed, builder))"

definition array3Pack ::
  "llvm_value \<Rightarrow> llvm_value \<Rightarrow> llvm_value \<Rightarrow> IRBuilder \<Rightarrow> (error + llvm_value) \<times> IRBuilder"
where
  "array3Pack value1 value2 value3 builder =
     (case typePrecedence (getType value1) (getType value2) of
        Inl e \<Rightarrow> (Inl e, builder)
      | Inr type12 \<Rightarrow>
     (case typePrecedence type12 (getType value3) of
        Inl e \<Rightarrow> (Inl e, builder)
      | Inr type \<Rightarrow>
     (case arithmeticConversion value1 type builder of
        (Inl e, b1) \<Rightarrow> (Inl e, b1)
      | (Inr v1, b1) \<Rightarrow>
     (case arithmeticConversion value2 type b1 of
        (Inl e, b2) \<Rightarrow> (Inl e, b2)
      | (Inr v2, b2) \<Rightarrow>
     (case arithmeticConversion value3 type b2 of
        (Inl e, b3) \<Rightarrow> (Inl e, b3)
      | (Inr v3, b3) \<Rightarrow>
     (case CreateAlloca (ArrayTy type 3) b3 of (vector, b4) \<Rightarrow>
      case CreateConstGEP2_64 vector 0 0 b4 of (e1, b5) \<Rightarrow>
      case CreateConstGEP2_64 vector 0 1 b5 of (e2, b6) \<Rightarrow>
      case CreateConstGEP2_64 vector 0 2 b6 of (e3, b7) \<Rightarrow>
        (Inr vector, CreateStore v3 e3 (CreateStore v2 e2 (CreateStore v1 e1 b7)))))))))"

section \<open>What the inserted instructions compute\<close>

text \<open>
  The machine: the values of the instruction results so far, and the cells of the
  \<^verbatim>\<open>alloca\<close> blocks, addressed by block and element index. The \<^verbatim>\<open>alloca\<close> at position \<open>pc\<close>
  creates block \<open>pc\<close>. The values of the arguments are given by \<open>args\<close>; a constant has
  the value it denotes.
\<close>

type_synonym machine = "(nat \<Rightarrow> rt_value option) \<times> (nat \<times> nat \<Rightarrow> rt_value option)"

fun eval_value :: "(nat \<Rightarrow> rt_value) \<Rightarrow> machine \<Rightarrow> llvm_value \<Rightarrow> rt_value option" where
  "eval_value args m (Argument n _) = Some (args n)"
| "eval_value args m (Register n _) = fst m n"
| "eval_value args m (ConstantInt ty i) = const_value (ConstantInt ty i)"
| "eval_value args m (ConstantFP ty q) = const_value (ConstantFP ty q)"
| "eval_value args m (FoldedCast f c ty) = const_value (FoldedCast f c ty)"
| "eval_value args m (FoldedBinary f a b) = const_value (FoldedBinary f a b)"
| "eval_value args m (FoldedGEP p i j) = const_value (FoldedGEP p i j)"

fun exec_instruction ::
  "(nat \<Rightarrow> rt_value) \<Rightarrow> nat \<Rightarrow> instruction \<Rightarrow> machine \<Rightarrow> machine option" where
  "exec_instruction args pc (CastInst f v ty) m =
     (case eval_value args m v of
        None \<Rightarrow> None
      | Some x \<Rightarrow>
          (case sem_cast f x ty of
             None \<Rightarrow> None
           | Some r \<Rightarrow> Some ((fst m)(pc \<mapsto> r), snd m)))"
| "exec_instruction args pc (BinaryInst f a b) m =
     (case (eval_value args m a, eval_value args m b) of
        (Some x, Some y) \<Rightarrow>
          (case sem_binary f x y of
             None \<Rightarrow> None
           | Some r \<Rightarrow> Some ((fst m)(pc \<mapsto> r), snd m))
      | _ \<Rightarrow> None)"
| "exec_instruction args pc (AllocaInst ty) m = Some ((fst m)(pc \<mapsto> RPtr pc), snd m)"
| "exec_instruction args pc (GEP2Inst p idx0 idx1) m =
     (case eval_value args m p of
        Some (RPtr blk) \<Rightarrow>
          (if idx0 = 0 then Some ((fst m)(pc \<mapsto> RElemPtr blk idx1), snd m) else None)
      | _ \<Rightarrow> None)"
| "exec_instruction args pc (LoadInst p) m =
     (case eval_value args m p of
        Some (RElemPtr blk idx) \<Rightarrow>
          Some ((fst m)(pc \<mapsto> (case snd m (blk, idx) of None \<Rightarrow> RUndef | Some x \<Rightarrow> x)), snd m)
      | _ \<Rightarrow> None)"
| "exec_instruction args pc (StoreInst v p) m =
     (case (eval_value args m v, eval_value args m p) of
        (Some x, Some (RElemPtr blk idx)) \<Rightarrow> Some (fst m, (snd m)((blk, idx) \<mapsto> x))
      | _ \<Rightarrow> None)"

fun exec_from ::
  "(nat \<Rightarrow> rt_value) \<Rightarrow> nat \<Rightarrow> instruction list \<Rightarrow> machine \<Rightarrow> machine option" where
  "exec_from args pc [] m = Some m"
| "exec_from args pc (i # is) m =
     (case exec_instruction args pc i m of
        None \<Rightarrow> None
      | Some m' \<Rightarrow> exec_from args (Suc pc) is m')"

text \<open>Run the instructions inserted from position \<open>pc\<close> on, then read a value.\<close>

definition eval_after ::
  "(nat \<Rightarrow> rt_value) \<Rightarrow> nat \<Rightarrow> instruction list \<Rightarrow> machine \<Rightarrow> llvm_value \<Rightarrow> rt_value option"
where
  "eval_after args pc is m v =
     (case exec_from args pc is m of None \<Rightarrow> None | Some m' \<Rightarrow> eval_value args m' v)"

text \<open>
  The value a call returns, once the instructions it has inserted have run: \<open>builder\<close> is
  the builder before the call, \<open>res\<close> the result and the builder after it.
\<close>

definition result_after ::
  "(nat \<Rightarrow> rt_value) \<Rightarrow> machine \<Rightarrow> IRBuilder \<Rightarrow> (error + llvm_value) \<times> IRBuilder \<Rightarrow>
   rt_value option" where
  "result_after args m builder res =
     (case fst res of
        Inl e \<Rightarrow> None
      | Inr r \<Rightarrow>
          eval_after args (length builder) (drop (length builder) (snd res)) m r)"

text \<open>A value is in scope at position \<open>n\<close> when it is not the result of a later instruction.\<close>

fun in_scope :: "nat \<Rightarrow> llvm_value \<Rightarrow> bool" where
  "in_scope n (Register k _) = (k < n)"
| "in_scope n _ = True"

text \<open>
  The spec's side of two comparisons: the ordered predicate it gives for each comparison
  operator, and the integer operation it gives for each bitwise operator.
\<close>

fun spec_fp_comparison :: "OperatorToken \<Rightarrow> fcmp_predicate option" where
  "spec_fp_comparison EQUALSEQUALS = Some FCMP_OEQ"
| "spec_fp_comparison NOTEQUALS = Some FCMP_ONE"
| "spec_fp_comparison LESSTHAN = Some FCMP_OLT"
| "spec_fp_comparison MORETHAN = Some FCMP_OGT"
| "spec_fp_comparison LESSTHANOREQUAL = Some FCMP_OLE"
| "spec_fp_comparison MORETHANOREQUAL = Some FCMP_OGE"
| "spec_fp_comparison _ = None"

fun spec_bitwise_operation :: "OperatorToken \<Rightarrow> BinaryFunction option" where
  "spec_bitwise_operation BITAND = Some CreateAnd"
| "spec_bitwise_operation BITOR = Some CreateOr"
| "spec_bitwise_operation BITXOR = Some CreateXor"
| "spec_bitwise_operation _ = None"

section \<open>Properties of typePrecedence\<close>

lemma ax_scalar_cases:
  "a \<in> set ax_scalar_types \<longleftrightarrow>
     a = IntegerTy 1 \<or> a = IntegerTy 8 \<or> a = IntegerTy 16 \<or> a = IntegerTy 32 \<or>
     a = IntegerTy 64 \<or> a = FloatTy \<or> a = DoubleTy"
  by (auto simp: ax_scalar_types_def)

lemma spec_rank_inj_on_scalars:
  "a \<in> set ax_scalar_types \<Longrightarrow> b \<in> set ax_scalar_types \<Longrightarrow>
   spec_rank a = spec_rank b \<Longrightarrow> a = b"
  unfolding ax_scalar_cases by (elim disjE) simp_all

text \<open>
  Claim C1. For every pair of scalar types \<open>a\<close>, \<open>b\<close> among bool, i8, i16, i32, i64, f32
  and f64, \<open>typePrecedence a b\<close> returns the larger of the two under the order
  \<open>bool < i8 < i16 < i32 < i64 < f32 < f64\<close>.
\<close>

theorem typePrecedence_is_max:
  assumes "a \<in> set ax_scalar_types" and "b \<in> set ax_scalar_types"
  shows "typePrecedence a b = Inr (spec_max a b)"
  using assms unfolding ax_scalar_cases
  by (elim disjE) (simp_all add: typePrecedence_def spec_max_def isScalarType_def)

text \<open>The instance named by the claim: f32 with i64 promotes to f32.\<close>

theorem typePrecedence_is_max_witness:
  "FloatTy \<in> set ax_scalar_types \<and> IntegerTy 64 \<in> set ax_scalar_types \<and>
   typePrecedence FloatTy (IntegerTy 64) = Inr FloatTy \<and>
   spec_max FloatTy (IntegerTy 64) = FloatTy"
proof -
  have a: "FloatTy \<in> set ax_scalar_types" by (simp add: ax_scalar_types_def)
  have b: "IntegerTy 64 \<in> set ax_scalar_types" by (simp add: ax_scalar_types_def)
  have m: "spec_max FloatTy (IntegerTy 64) = FloatTy" by (simp add: spec_max_def)
  show ?thesis using a b m typePrecedence_is_max [OF a b] by simp
qed

text \<open>
  Claim C5. For all scalar types \<open>a\<close> and \<open>b\<close> of the precedence order,
  \<open>typePrecedence a b\<close> equals \<open>typePrecedence b a\<close>, and the type returned is \<open>a\<close> or \<open>b\<close>.
\<close>

theorem typePrecedence_commutes_and_selects:
  assumes "a \<in> set ax_scalar_types" and "b \<in> set ax_scalar_types"
  shows "typePrecedence a b = typePrecedence b a \<and>
         (typePrecedence a b = Inr a \<or> typePrecedence a b = Inr b)"
  using assms unfolding ax_scalar_cases
  by (elim disjE) (simp_all add: typePrecedence_def isScalarType_def)

theorem typePrecedence_commutes_and_selects_witness:
  "IntegerTy 16 \<in> set ax_scalar_types \<and> DoubleTy \<in> set ax_scalar_types \<and>
   typePrecedence (IntegerTy 16) DoubleTy = typePrecedence DoubleTy (IntegerTy 16) \<and>
   typePrecedence (IntegerTy 16) DoubleTy = Inr DoubleTy"
proof -
  have a: "IntegerTy 16 \<in> set ax_scalar_types" by (simp add: ax_scalar_types_def)
  have b: "DoubleTy \<in> set ax_scalar_types" by (simp add: ax_scalar_types_def)
  have v: "typePrecedence (IntegerTy 16) DoubleTy = Inr DoubleTy"
    by (simp add: typePrecedence_def isScalarType_def)
  show ?thesis using a b v typePrecedence_commutes_and_selects [OF a b] by simp
qed

section \<open>Properties of llvmBinaryConversion\<close>

text \<open>
  Claim C3. For every operator token that \<open>operatorType\<close> classifies as logical or as
  bitwise, and every floating-point type, \<open>llvmBinaryConversion\<close> fails with
  \<open>LLVMBinaryOperationError\<close>; it returns no binary function.
\<close>

theorem llvmBinaryConversion_rejects_logical_bitwise_on_fp:
  assumes "isFloatingPointTy ty" and "opT token = LOGICAL \<or> opT token = BITWISE"
  shows "llvmBinaryConversion opT ty token = Inl LLVMBinaryOperationError"
  using assms by (simp add: llvmBinaryConversion_def)

theorem llvmBinaryConversion_rejects_logical_bitwise_on_fp_witness:
  "isFloatingPointTy FloatTy \<and> operatorType BITXOR = BITWISE \<and>
   llvmBinaryConversion operatorType FloatTy BITXOR = Inl LLVMBinaryOperationError"
proof -
  have t: "isFloatingPointTy FloatTy" by simp
  have c: "operatorType BITXOR = LOGICAL \<or> operatorType BITXOR = BITWISE" by simp
  show ?thesis
    using llvmBinaryConversion_rejects_logical_bitwise_on_fp
            [where opT = operatorType and token = BITXOR, OF t c]
    by simp
qed

text \<open>
  Claim C4. For a floating-point type, each of the comparison operators \<open>==\<close>, \<open>!=\<close>,
  \<open><\<close>, \<open>>\<close>, \<open><=\<close>, \<open>>=\<close> is lowered to the ordered predicate OEQ, ONE, OLT, OGT,
  OLE, OGE, and the comparison is false whenever either operand is a NaN, \<open>!=\<close> included.
\<close>

theorem fp_comparisons_are_ordered:
  assumes "isFloatingPointTy ty" and "opT token \<noteq> LOGICAL" and "opT token \<noteq> BITWISE"
    and "spec_fp_comparison token = Some p"
  shows "llvmBinaryConversion opT ty token = Inr (CreateFCmp p) \<and>
         (a = FNaN \<or> b = FNaN \<longrightarrow>
            sem_binary (CreateFCmp p) (RFloat a) (RFloat b) = Some (bool_value False))"
  using assms
  by (cases token) (auto simp: llvmBinaryConversion_def sem_binary_def fp_unordered_def)

theorem fp_comparisons_are_ordered_witness:
  "isFloatingPointTy DoubleTy \<and> spec_fp_comparison NOTEQUALS = Some FCMP_ONE \<and>
   llvmBinaryConversion operatorType DoubleTy NOTEQUALS = Inr (CreateFCmp FCMP_ONE) \<and>
   sem_binary (CreateFCmp FCMP_ONE) (RFloat FNaN) (RFloat (FFinite 1)) = Some (RInt 1 0)"
proof -
  have t: "isFloatingPointTy DoubleTy" by simp
  have l: "operatorType NOTEQUALS \<noteq> LOGICAL" by simp
  have w: "operatorType NOTEQUALS \<noteq> BITWISE" by simp
  have s: "spec_fp_comparison NOTEQUALS = Some FCMP_ONE" by simp
  show ?thesis
    using s fp_comparisons_are_ordered
            [where opT = operatorType and token = NOTEQUALS and a = FNaN and b = "FFinite 1",
             OF t l w s]
    by (simp add: bool_value_def)
qed

section \<open>Properties of boolComparison and of the cast to bool\<close>

lemma eval_value_constant:
  "isConstant v \<Longrightarrow> eval_value args m v = const_value v"
  by (cases v) simp_all

lemma getType_fold_cast: "getType (fold_cast f c ty) = ty"
  by (auto simp: fold_cast_def as_literal_def sem_cast_def
        split: option.splits rt_value.splits llvm_type.splits CastFunction.splits
          fp_value.splits if_splits)

lemma round_to_zero_cases:
  "(- 1 < q \<and> q < 1 \<longrightarrow> round_to_zero q = 0) \<and>
   (1 \<le> q \<and> q < 2 \<longrightarrow> round_to_zero q = 1) \<and>
   (q \<le> - 1 \<longrightarrow> round_to_zero q < 0) \<and>
   (2 \<le> q \<longrightarrow> 2 \<le> round_to_zero q)"
  unfolding round_to_zero_def
  by (auto simp: floor_eq_iff ceiling_eq_iff le_floor_iff ceiling_less_iff)

lemma fptoui_to_i1:
  "sem_cast CreateFPToUI (RFloat (FFinite q)) (IntegerTy 1) =
     Some (if - 1 < q \<and> q < 1 then RInt 1 0 else if 1 \<le> q \<and> q < 2 then RInt 1 1 else RPoison)"
proof -
  consider "q \<le> - 1" | "- 1 < q \<and> q < 1" | "1 \<le> q \<and> q < 2" | "2 \<le> q" by linarith
  then show ?thesis
  proof cases
    case 1
    then have "round_to_zero q < 0" using round_to_zero_cases by blast
    with 1 show ?thesis by (simp add: sem_cast_def)
  next
    case 2
    then have "round_to_zero q = 0" using round_to_zero_cases by blast
    with 2 show ?thesis by (simp add: sem_cast_def)
  next
    case 3
    then have "round_to_zero q = 1" using round_to_zero_cases by blast
    with 3 show ?thesis by (simp add: sem_cast_def)
  next
    case 4
    then have "2 \<le> round_to_zero q" using round_to_zero_cases by blast
    with 4 show ?thesis by (simp add: sem_cast_def)
  qed
qed

text \<open>
  Claim C6. \<open>boolComparison\<close> coerces a floating-point value by the ordered comparison
  \<open>!= 0.0\<close>, so the result is true exactly when the value is neither a NaN nor zero (a NaN
  coerces to false), and an integer value by the comparison \<open>!= 0\<close>, so every nonzero
  integer coerces to true. The comparison is inserted as an instruction, or folded by the
  builder when the value is a constant.
\<close>

theorem boolComparison_coerces:
  "(isFloatingPointTy (getType val) \<longrightarrow>
      boolComparison val builder =
        (if isConstant val
         then (Inr (fold_binary (CreateFCmp FCMP_ONE) val (ConstantFP (getType val) 0)), builder)
         else (Inr (Register (length builder) (IntegerTy 1)),
               builder @ [BinaryInst (CreateFCmp FCMP_ONE) val (ConstantFP (getType val) 0)])) \<and>
      (eval_value args m val = Some (RFloat x) \<longrightarrow>
         result_after args m builder (boolComparison val builder)
         = Some (bool_value (x \<noteq> FNaN \<and> x \<noteq> FFinite 0)))) \<and>
   (isIntegerTy (getType val) \<longrightarrow>
      boolComparison val builder =
        (if isConstant val
         then (Inr (fold_binary (CreateICmp ICMP_NE) val (ConstantInt (getType val) 0)), builder)
         else (Inr (Register (length builder) (IntegerTy 1)),
               builder @ [BinaryInst (CreateICmp ICMP_NE) val (ConstantInt (getType val) 0)])) \<and>
      (getType val = IntegerTy w \<and> eval_value args m val = Some (RInt w n) \<longrightarrow>
         result_after args m builder (boolComparison val builder)
         = Some (bool_value (n \<noteq> 0))))"
proof (cases "isConstant val")
  case True
  then have ev: "eval_value args m val = const_value val"
    by (rule eval_value_constant)
  have sel_fp: "isFloatingPointTy (getType val) \<Longrightarrow>
      boolComparison val builder =
        (Inr (fold_binary (CreateFCmp FCMP_ONE) val (ConstantFP (getType val) 0)), builder)"
    using True by (cases "getType val") (simp_all add: boolComparison_def CreateBinary_def)
  have sel_int: "isIntegerTy (getType val) \<Longrightarrow>
      boolComparison val builder =
        (Inr (fold_binary (CreateICmp ICMP_NE) val (ConstantInt (getType val) 0)), builder)"
    using True by (cases "getType val") (simp_all add: boolComparison_def CreateBinary_def)
  have run_fp: "isFloatingPointTy (getType val) \<Longrightarrow> eval_value args m val = Some (RFloat x) \<Longrightarrow>
      result_after args m builder (boolComparison val builder)
        = Some (bool_value (x \<noteq> FNaN \<and> x \<noteq> FFinite 0))"
    using ev
    by (simp add: sel_fp result_after_def eval_after_def fold_binary_def as_literal_def
          sem_binary_def fp_unordered_def bool_value_def)
  have run_int: "getType val = IntegerTy w \<Longrightarrow> eval_value args m val = Some (RInt w n) \<Longrightarrow>
      result_after args m builder (boolComparison val builder) = Some (bool_value (n \<noteq> 0))"
    using ev
    by (simp add: sel_int result_after_def eval_after_def fold_binary_def as_literal_def
          sem_binary_def bool_value_def)
  show ?thesis using True sel_fp sel_int run_fp run_int by simp
next
  case False
  have sel_fp: "isFloatingPointTy (getType val) \<Longrightarrow>
      boolComparison val builder =
        (Inr (Register (length builder) (IntegerTy 1)),
         builder @ [BinaryInst (CreateFCmp FCMP_ONE) val (ConstantFP (getType val) 0)])"
    using False
    by (cases "getType val")
       (simp_all add: boolComparison_def CreateBinary_def insert_instruction_def)
  have sel_int: "isIntegerTy (getType val) \<Longrightarrow>
      boolComparison val builder =
        (Inr (Register (length builder) (IntegerTy 1)),
         builder @ [BinaryInst (CreateICmp ICMP_NE) val (ConstantInt (getType val) 0)])"
    using False
    by (cases "getType val")
       (simp_all add: boolComparison_def CreateBinary_def insert_instruction_def)
  have run_fp: "isFloatingPointTy (getType val) \<Longrightarrow> eval_value args m val = Some (RFloat x) \<Longrightarrow>
      result_after args m builder (boolComparison val builder)
        = Some (bool_value (x \<noteq> FNaN \<and> x \<noteq> FFinite 0))"
    by (simp add: sel_fp result_after_def eval_after_def sem_binary_def fp_unordered_def)
  have run_int: "getType val = IntegerTy w \<Longrightarrow> eval_value args m val = Some (RInt w n) \<Longrightarrow>
      result_after args m builder (boolComparison val builder) = Some (bool_value (n \<noteq> 0))"
    by (simp add: sel_int result_after_def eval_after_def sem_binary_def)
  show ?thesis using False sel_fp sel_int run_fp run_int by simp
qed

theorem boolComparison_coerces_witness:
  "boolComparison (Argument 0 DoubleTy) [] =
     (Inr (Register 0 (IntegerTy 1)),
      [BinaryInst (CreateFCmp FCMP_ONE) (Argument 0 DoubleTy) (ConstantFP DoubleTy 0)]) \<and>
   result_after (\<lambda>_. RFloat FNaN) (Map.empty, Map.empty) []
     (boolComparison (Argument 0 DoubleTy) []) = Some (RInt 1 0) \<and>
   boolComparison (Argument 0 (IntegerTy 32)) [] =
     (Inr (Register 0 (IntegerTy 1)),
      [BinaryInst (CreateICmp ICMP_NE) (Argument 0 (IntegerTy 32)) (ConstantInt (IntegerTy 32) 0)]) \<and>
   result_after (\<lambda>_. RInt 32 5) (Map.empty, Map.empty) []
     (boolComparison (Argument 0 (IntegerTy 32)) []) = Some (RInt 1 1) \<and>
   boolComparison (ConstantFP DoubleTy 0) [] = (Inr (ConstantInt (IntegerTy 1) 0), []) \<and>
   boolComparison (ConstantInt (IntegerTy 32) 5) [] = (Inr (ConstantInt (IntegerTy 1) 1), [])"
proof -
  note fp = boolComparison_coerces [where val = "Argument 0 DoubleTy" and builder = "[]"
          and args = "\<lambda>_. RFloat FNaN" and m = "(Map.empty, Map.empty)" and x = FNaN]
  note int = boolComparison_coerces [where val = "Argument 0 (IntegerTy 32)" and builder = "[]"
          and args = "\<lambda>_. RInt 32 5" and m = "(Map.empty, Map.empty)" and w = 32 and n = 5]
  note cfp = boolComparison_coerces [where val = "ConstantFP DoubleTy 0" and builder = "[]"]
  note cint = boolComparison_coerces [where val = "ConstantInt (IntegerTy 32) 5" and builder = "[]"]
  have a: "boolComparison (Argument 0 DoubleTy) [] =
     (Inr (Register 0 (IntegerTy 1)),
      [BinaryInst (CreateFCmp FCMP_ONE) (Argument 0 DoubleTy) (ConstantFP DoubleTy 0)]) \<and>
     result_after (\<lambda>_. RFloat FNaN) (Map.empty, Map.empty) []
       (boolComparison (Argument 0 DoubleTy) []) = Some (RInt 1 0)"
    using fp by (simp add: bool_value_def del: One_nat_def cong: conj_cong)
  note a1 = a [THEN conjunct1] and a2 = a [THEN conjunct2]
  have b: "boolComparison (Argument 0 (IntegerTy 32)) [] =
     (Inr (Register 0 (IntegerTy 1)),
      [BinaryInst (CreateICmp ICMP_NE) (Argument 0 (IntegerTy 32)) (ConstantInt (IntegerTy 32) 0)]) \<and>
     result_after (\<lambda>_. RInt 32 5) (Map.empty, Map.empty) []
       (boolComparison (Argument 0 (IntegerTy 32)) []) = Some (RInt 1 1)"
    using int by (simp add: bool_value_def del: One_nat_def cong: conj_cong)
  note b1 = b [THEN conjunct1] and b2 = b [THEN conjunct2]
  have c1: "boolComparison (ConstantFP DoubleTy 0) [] = (Inr (ConstantInt (IntegerTy 1) 0), [])"
    using cfp
    by (simp add: bool_value_def fold_binary_def as_literal_def sem_binary_def fp_unordered_def)
  have d1: "boolComparison (ConstantInt (IntegerTy 32) 5) [] =
     (Inr (ConstantInt (IntegerTy 1) 1), [])"
    using cint
    by (simp add: bool_value_def fold_binary_def as_literal_def sem_binary_def)
  show ?thesis using a1 a2 b1 b2 c1 d1 by blast
qed

text \<open>
  Claim C7, as stated: the cast to bool converts a floating-point source by a comparison
  with zero, so that the source casts to true exactly when it is nonzero. It fails on the
  source value \<open>0.5\<close> of type \<open>float\<close>: the conversion selected is \<^verbatim>\<open>CreateFPToUI\<close>, and
  the nonzero value \<open>0.5\<close> casts to false.
\<close>

theorem cast_fp_to_bool_counterexample:
  "arithmeticConversion (Argument 0 FloatTy) (IntegerTy 1) [] =
     (Inr (Register 0 (IntegerTy 1)), [CastInst CreateFPToUI (Argument 0 FloatTy) (IntegerTy 1)]) \<and>
   eval_after (\<lambda>_. RFloat (FFinite (1 / 2))) 0
     [CastInst CreateFPToUI (Argument 0 FloatTy) (IntegerTy 1)] (Map.empty, Map.empty)
     (Register 0 (IntegerTy 1)) = Some (RInt 1 0) \<and>
   FFinite (1 / 2) \<noteq> FFinite 0"
  by (simp add: arithmeticConversion_def llvmArithmeticConversion_def CreateCast_def
        insert_instruction_def eval_after_def sem_cast_def round_to_zero_def)

text \<open>
  Claim C7, amended. The arithmetic cast with target type bool converts an integer source
  (i8, i16, i32, i64) by truncation, which keeps the lowest bit, and a floating-point
  source (f32, f64) by \<^verbatim>\<open>CreateFPToUI\<close>, the conversion to an unsigned integer that rounds
  towards zero: a finite source value \<open>q\<close> casts to false when \<open>-1 < q < 1\<close>, to true when
  \<open>1 \<le> q < 2\<close>, and to poison otherwise. The conversion is inserted as an instruction, or
  folded by the builder when the source is a constant.
\<close>

theorem cast_to_bool_truncates:
  "(getType val = FloatTy \<or> getType val = DoubleTy \<longrightarrow>
      arithmeticConversion val (IntegerTy 1) builder =
        (if isConstant val
         then (Inr (fold_cast CreateFPToUI val (IntegerTy 1)), builder)
         else (Inr (Register (length builder) (IntegerTy 1)),
               builder @ [CastInst CreateFPToUI val (IntegerTy 1)])) \<and>
      (eval_value args m val = Some (RFloat (FFinite q)) \<longrightarrow>
         result_after args m builder (arithmeticConversion val (IntegerTy 1) builder)
         = Some (if - 1 < q \<and> q < 1 then RInt 1 0
                 else if 1 \<le> q \<and> q < 2 then RInt 1 1 else RPoison))) \<and>
   (getType val = IntegerTy 8 \<or> getType val = IntegerTy 16 \<or>
    getType val = IntegerTy 32 \<or> getType val = IntegerTy 64 \<longrightarrow>
      arithmeticConversion val (IntegerTy 1) builder =
        (if isConstant val
         then (Inr (fold_cast CreateTrunc val (IntegerTy 1)), builder)
         else (Inr (Register (length builder) (IntegerTy 1)),
               builder @ [CastInst CreateTrunc val (IntegerTy 1)])) \<and>
      (eval_value args m val = Some (RInt w n) \<longrightarrow>
         result_after args m builder (arithmeticConversion val (IntegerTy 1) builder)
         = Some (RInt 1 (n mod 2))))"
proof -
  have sel_fp: "getType val = FloatTy \<or> getType val = DoubleTy \<Longrightarrow>
      arithmeticConversion val (IntegerTy 1) builder =
        (if isConstant val
         then (Inr (fold_cast CreateFPToUI val (IntegerTy 1)), builder)
         else (Inr (Register (length builder) (IntegerTy 1)),
               builder @ [CastInst CreateFPToUI val (IntegerTy 1)]))"
    by (auto simp: arithmeticConversion_def llvmArithmeticConversion_def CreateCast_def
          insert_instruction_def)
  have sel_int: "getType val = IntegerTy 8 \<or> getType val = IntegerTy 16 \<or>
    getType val = IntegerTy 32 \<or> getType val = IntegerTy 64 \<Longrightarrow>
      arithmeticConversion val (IntegerTy 1) builder =
        (if isConstant val
         then (Inr (fold_cast CreateTrunc val (IntegerTy 1)), builder)
         else (Inr (Register (length builder) (IntegerTy 1)),
               builder @ [CastInst CreateTrunc val (IntegerTy 1)]))"
    by (auto simp: arithmeticConversion_def llvmArithmeticConversion_def CreateCast_def
          insert_instruction_def)
  have run_fp: "result_after args m builder (arithmeticConversion val (IntegerTy 1) builder)
         = Some (if - 1 < q \<and> q < 1 then RInt 1 0
                 else if 1 \<le> q \<and> q < 2 then RInt 1 1 else RPoison)"
    if ty: "getType val = FloatTy \<or> getType val = DoubleTy"
      and ev: "eval_value args m val = Some (RFloat (FFinite q))"
  proof (cases "isConstant val")
    case True
    then have cv: "const_value val = Some (RFloat (FFinite q))"
      using ev eval_value_constant by simp
    show ?thesis
      using True cv
      by (simp add: sel_fp [OF ty] result_after_def eval_after_def fold_cast_def as_literal_def
            fptoui_to_i1 del: One_nat_def)
  next
    case False
    then show ?thesis
      using ev
      by (simp add: sel_fp [OF ty] result_after_def eval_after_def fptoui_to_i1
            del: One_nat_def)
  qed
  have run_int: "result_after args m builder (arithmeticConversion val (IntegerTy 1) builder)
         = Some (RInt 1 (n mod 2))"
    if ty: "getType val = IntegerTy 8 \<or> getType val = IntegerTy 16 \<or>
            getType val = IntegerTy 32 \<or> getType val = IntegerTy 64"
      and ev: "eval_value args m val = Some (RInt w n)"
  proof (cases "isConstant val")
    case True
    then have cv: "const_value val = Some (RInt w n)"
      using ev eval_value_constant by simp
    show ?thesis
      using True cv
      by (simp add: sel_int [OF ty] result_after_def eval_after_def fold_cast_def as_literal_def
            sem_cast_def del: One_nat_def)
  next
    case False
    then show ?thesis
      using ev
      by (simp add: sel_int [OF ty] result_after_def eval_after_def sem_cast_def
            del: One_nat_def)
  qed
  show ?thesis using sel_fp sel_int run_fp run_int by blast
qed

theorem cast_to_bool_truncates_witness:
  "arithmeticConversion (Argument 0 DoubleTy) (IntegerTy 1) [] =
     (Inr (Register 0 (IntegerTy 1)), [CastInst CreateFPToUI (Argument 0 DoubleTy) (IntegerTy 1)]) \<and>
   result_after (\<lambda>_. RFloat (FFinite (3 / 2))) (Map.empty, Map.empty) []
     (arithmeticConversion (Argument 0 DoubleTy) (IntegerTy 1) []) = Some (RInt 1 1) \<and>
   arithmeticConversion (Argument 0 (IntegerTy 32)) (IntegerTy 1) [] =
     (Inr (Register 0 (IntegerTy 1)),
      [CastInst CreateTrunc (Argument 0 (IntegerTy 32)) (IntegerTy 1)]) \<and>
   result_after (\<lambda>_. RInt 32 2) (Map.empty, Map.empty) []
     (arithmeticConversion (Argument 0 (IntegerTy 32)) (IntegerTy 1) []) = Some (RInt 1 0) \<and>
   arithmeticConversion (ConstantFP FloatTy (1 / 2)) (IntegerTy 1) [] =
     (Inr (ConstantInt (IntegerTy 1) 0), [])"
proof -
  note fp = cast_to_bool_truncates [where val = "Argument 0 DoubleTy" and builder = "[]"
          and args = "\<lambda>_. RFloat (FFinite (3 / 2))" and m = "(Map.empty, Map.empty)"
          and q = "3 / 2"]
  note int = cast_to_bool_truncates [where val = "Argument 0 (IntegerTy 32)" and builder = "[]"
          and args = "\<lambda>_. RInt 32 2" and m = "(Map.empty, Map.empty)" and w = 32 and n = 2]
  note cfp = cast_to_bool_truncates [where val = "ConstantFP FloatTy (1 / 2)" and builder = "[]"]
  have a: "arithmeticConversion (Argument 0 DoubleTy) (IntegerTy 1) [] =
     (Inr (Register 0 (IntegerTy 1)), [CastInst CreateFPToUI (Argument 0 DoubleTy) (IntegerTy 1)]) \<and>
     result_after (\<lambda>_. RFloat (FFinite (3 / 2))) (Map.empty, Map.empty) []
       (arithmeticConversion (Argument 0 DoubleTy) (IntegerTy 1) []) = Some (RInt 1 1)"
    using fp by (simp del: One_nat_def cong: conj_cong)
  note a1 = a [THEN conjunct1] and a2 = a [THEN conjunct2]
  have b: "arithmeticConversion (Argument 0 (IntegerTy 32)) (IntegerTy 1) [] =
     (Inr (Register 0 (IntegerTy 1)),
      [CastInst CreateTrunc (Argument 0 (IntegerTy 32)) (IntegerTy 1)]) \<and>
     result_after (\<lambda>_. RInt 32 2) (Map.empty, Map.empty) []
       (arithmeticConversion (Argument 0 (IntegerTy 32)) (IntegerTy 1) []) = Some (RInt 1 0)"
    using int by (simp del: One_nat_def cong: conj_cong)
  note b1 = b [THEN conjunct1] and b2 = b [THEN conjunct2]
  have c1: "arithmeticConversion (ConstantFP FloatTy (1 / 2)) (IntegerTy 1) [] =
     (Inr (ConstantInt (IntegerTy 1) 0), [])"
    using cfp by (simp add: fold_cast_def as_literal_def fptoui_to_i1 del: One_nat_def)
  show ?thesis using a1 a2 b1 b2 c1 by blast
qed

section \<open>Properties of the casts and of binaryOperator\<close>

text \<open>
  Claim C8. For every pointer to an array whose element type is already the target
  element type, \<open>arrayCast\<close> returns the pointer itself and inserts nothing, so no array
  is allocated; for every scalar value whose type is already the target type,
  \<open>arithmeticConversion\<close> returns the value itself and inserts nothing.
\<close>

theorem same_type_casts_return_input:
  assumes "isIntegerTy ty \<or> isFloatingPointTy ty"
  shows "(getType ptrToArray = PointerTy (ArrayTy ty n) \<longrightarrow>
            arrayCast ptrToArray ty builder = (Inr ptrToArray, builder)) \<and>
         (getType val = ty \<longrightarrow> arithmeticConversion val ty builder = (Inr val, builder))"
  using assms by (auto simp: arrayCast_def arithmeticConversion_def)

theorem same_type_casts_return_input_witness:
  "(isIntegerTy FloatTy \<or> isFloatingPointTy FloatTy) \<and>
   arrayCast (Argument 0 (PointerTy (ArrayTy FloatTy 3))) FloatTy [AllocaInst FloatTy] =
     (Inr (Argument 0 (PointerTy (ArrayTy FloatTy 3))), [AllocaInst FloatTy]) \<and>
   arithmeticConversion (Argument 1 FloatTy) FloatTy [AllocaInst FloatTy] =
     (Inr (Argument 1 FloatTy), [AllocaInst FloatTy])"
proof -
  have t: "isIntegerTy FloatTy \<or> isFloatingPointTy FloatTy" by simp
  show ?thesis
    using t same_type_casts_return_input [OF t,
            where ptrToArray = "Argument 0 (PointerTy (ArrayTy FloatTy 3))" and n = 3
              and val = "Argument 1 FloatTy" and builder = "[AllocaInst FloatTy]"]
    by simp
qed

text \<open>
  Claim C10. For every operator token, when the two operands of \<open>binaryOperator\<close> have
  different types the call fails with \<open>LLVMTypeError\<close> and the builder is as before: no
  instruction is inserted, and the warnings are untouched.
\<close>

theorem binaryOperator_rejects_mismatched_types:
  assumes "getType lhs \<noteq> getType rhs"
  shows "binaryOperator opT lhs rhs token builder warnings =
           (Inl LLVMTypeError, builder, warnings)"
  using assms by (simp add: binaryOperator_def)

theorem binaryOperator_rejects_mismatched_types_witness:
  "getType (Argument 0 FloatTy) \<noteq> getType (Argument 1 (IntegerTy 64)) \<and>
   binaryOperator operatorType (Argument 0 FloatTy) (Argument 1 (IntegerTy 64)) PLUS [] (Some [])
     = (Inl LLVMTypeError, [], Some [])"
proof -
  have d: "getType (Argument 0 FloatTy) \<noteq> getType (Argument 1 (IntegerTy 64))" by simp
  show ?thesis
    using d binaryOperator_rejects_mismatched_types [OF d] by simp
qed

text \<open>
  Claim C2. For two operands of the same floating-point type (f32 or f64) and each of the
  bitwise operators \<open>&\<close>, \<open>|\<close>, \<open>^\<close>, \<open>binaryOperator\<close> does not fail: it converts the
  right and then the left operand to \<open>i64\<close> with \<^verbatim>\<open>CreateFPToSI\<close>, applies the integer
  bitwise operation to the two converted operands, and a warnings string that is given
  comes back holding the report of the implicit cast. For operands that are not constants
  these are three inserted instructions.
\<close>

theorem binaryOperator_bitwise_on_fp:
  assumes "ty = FloatTy \<or> ty = DoubleTy"
    and "getType lhs = ty" and "getType rhs = ty"
    and "opT token = BITWISE" and "spec_bitwise_operation token = Some f"
  shows "binaryOperator opT lhs rhs token builder warnings =
           (case CreateCast CreateFPToSI rhs (IntegerTy 64) builder of (rhs', b1) \<Rightarrow>
            case CreateCast CreateFPToSI lhs (IntegerTy 64) b1 of (lhs', b2) \<Rightarrow>
            case CreateBinary f lhs' rhs' b2 of (r, b3) \<Rightarrow>
              (Inr r, b3,
               case warnings of
                 None \<Rightarrow> None
               | Some s \<Rightarrow> Some ''Implicit cast from float to int.'')) \<and>
         (\<not> isConstant lhs \<and> \<not> isConstant rhs \<longrightarrow>
          binaryOperator opT lhs rhs token builder warnings =
           (Inr (Register (length builder + 2) (IntegerTy 64)),
            builder @
              [CastInst CreateFPToSI rhs (IntegerTy 64),
               CastInst CreateFPToSI lhs (IntegerTy 64),
               BinaryInst f (Register (length builder + 1) (IntegerTy 64))
                            (Register (length builder) (IntegerTy 64))],
            case warnings of
              None \<Rightarrow> None
            | Some s \<Rightarrow> Some ''Implicit cast from float to int.''))"
proof -
  have fp: "isFloatingPointTy ty" and ne: "ty \<noteq> IntegerTy 64"
    using assms(1) by auto
  have conv: "llvmArithmeticConversion ty (IntegerTy 64) = Inr CreateFPToSI"
    using assms(1) by (auto simp: llvmArithmeticConversion_def)
  have ac: "arithmeticConversion v (IntegerTy 64) b =
              (case CreateCast CreateFPToSI v (IntegerTy 64) b of (r, b') \<Rightarrow> (Inr r, b'))"
    if "getType v = ty" for v b
    using that fp ne by (simp add: arithmeticConversion_def conv)
  have ty_cast: "getType (fst (CreateCast CreateFPToSI v (IntegerTy 64) b)) = IntegerTy 64"
    for v b
    by (simp add: CreateCast_def insert_instruction_def getType_fold_cast)
  have bin: "llvmBinaryConversion opT (IntegerTy 64) token = Inr f"
    using assms(5) by (cases token) (simp_all add: llvmBinaryConversion_def)
  have ops: "f = CreateAnd \<or> f = CreateOr \<or> f = CreateXor"
    using assms(5) by (cases token) simp_all
  have app: "binaryOperator_apply opT l r token b w =
               (case CreateBinary f l r b of (x, b') \<Rightarrow> (Inr x, b', w))"
    if "getType l = IntegerTy 64" for l r b w
    using that by (simp add: binaryOperator_apply_def bin)
  have general: "binaryOperator opT lhs rhs token builder warnings =
           (case CreateCast CreateFPToSI rhs (IntegerTy 64) builder of (rhs', b1) \<Rightarrow>
            case CreateCast CreateFPToSI lhs (IntegerTy 64) b1 of (lhs', b2) \<Rightarrow>
            case CreateBinary f lhs' rhs' b2 of (r, b3) \<Rightarrow>
              (Inr r, b3,
               case warnings of
                 None \<Rightarrow> None
               | Some s \<Rightarrow> Some ''Implicit cast from float to int.''))"
  proof -
    obtain rhs' b1 where r: "CreateCast CreateFPToSI rhs (IntegerTy 64) builder = (rhs', b1)"
      by (cases "CreateCast CreateFPToSI rhs (IntegerTy 64) builder")
    obtain lhs' b2 where l: "CreateCast CreateFPToSI lhs (IntegerTy 64) b1 = (lhs', b2)"
      by (cases "CreateCast CreateFPToSI lhs (IntegerTy 64) b1")
    have tl: "getType lhs' = IntegerTy 64"
      using ty_cast [of lhs b1] l by simp
    show ?thesis
      using assms(2-4) fp r l
      by (simp add: binaryOperator_def LLVMType_int64_def ac app [OF tl] setWarning_def)
  qed
  have explicit: "(case CreateCast CreateFPToSI rhs (IntegerTy 64) builder of (rhs', b1) \<Rightarrow>
            case CreateCast CreateFPToSI lhs (IntegerTy 64) b1 of (lhs', b2) \<Rightarrow>
            case CreateBinary f lhs' rhs' b2 of (r, b3) \<Rightarrow>
              (Inr r, b3,
               case warnings of
                 None \<Rightarrow> None
               | Some s \<Rightarrow> Some ''Implicit cast from float to int.'')) =
           (Inr (Register (length builder + 2) (IntegerTy 64)),
            builder @
              [CastInst CreateFPToSI rhs (IntegerTy 64),
               CastInst CreateFPToSI lhs (IntegerTy 64),
               BinaryInst f (Register (length builder + 1) (IntegerTy 64))
                            (Register (length builder) (IntegerTy 64))],
            case warnings of
              None \<Rightarrow> None
            | Some s \<Rightarrow> Some ''Implicit cast from float to int.'')"
    if "\<not> isConstant lhs" and "\<not> isConstant rhs"
    using that assms(2,3) ne ops
    by (auto simp: CreateCast_def CreateBinary_def insert_instruction_def)
  show ?thesis using general trans [OF general explicit] by blast
qed

theorem binaryOperator_bitwise_on_fp_witness:
  "operatorType BITAND = BITWISE \<and> spec_bitwise_operation BITAND = Some CreateAnd \<and>
   binaryOperator operatorType (Argument 0 FloatTy) (Argument 1 FloatTy) BITAND [] (Some [])
     = (Inr (Register 2 (IntegerTy 64)),
        [CastInst CreateFPToSI (Argument 1 FloatTy) (IntegerTy 64),
         CastInst CreateFPToSI (Argument 0 FloatTy) (IntegerTy 64),
         BinaryInst CreateAnd (Register 1 (IntegerTy 64)) (Register 0 (IntegerTy 64))],
        Some ''Implicit cast from float to int.'')"
proof -
  have t: "FloatTy = FloatTy \<or> FloatTy = DoubleTy" by simp
  have l: "getType (Argument 0 FloatTy) = FloatTy" by simp
  have r: "getType (Argument 1 FloatTy) = FloatTy" by simp
  have c: "operatorType BITAND = BITWISE" by simp
  have s: "spec_bitwise_operation BITAND = Some CreateAnd" by simp
  note th = binaryOperator_bitwise_on_fp
            [where opT = operatorType and token = BITAND and builder = "[]"
               and warnings = "Some []", OF t l r c s, THEN conjunct2]
  show ?thesis
    using c s th by simp
qed

text \<open>
  The same call on two constants: both conversions and the operation are folded, nothing
  is inserted, and the warning is set.
\<close>

lemma binaryOperator_bitwise_on_constants:
  "binaryOperator operatorType (ConstantFP FloatTy 3) (ConstantFP FloatTy 5) BITAND []
     (Some ''earlier'')
     = (Inr (ConstantInt (IntegerTy 64) 1), [], Some ''Implicit cast from float to int.'')"
  by (simp add: binaryOperator_def arithmeticConversion_def llvmArithmeticConversion_def
        LLVMType_int64_def CreateCast_def binaryOperator_apply_def llvmBinaryConversion_def
        CreateBinary_def setWarning_def fold_cast_def fold_binary_def as_literal_def
        sem_cast_def sem_binary_def round_to_zero_def)

text \<open>
  Outside those operands and tokens the bitwise path throws: a floating-point type other
  than \<^verbatim>\<open>float\<close> and \<^verbatim>\<open>double\<close> has no conversion to \<open>i64\<close>, and a token that
  \<open>operatorType\<close> classifies as bitwise but \<open>llvmBinaryConversion\<close> does not list reaches
  "Unrecognised binary operator" after the two conversions and the warning.
\<close>

lemma binaryOperator_bitwise_on_half:
  "binaryOperator operatorType (Argument 0 HalfTy) (Argument 1 HalfTy) BITAND [] (Some [])
     = (Inl LLVMTypeError, [], Some [])"
  by (simp add: binaryOperator_def arithmeticConversion_def llvmArithmeticConversion_def
        LLVMType_int64_def)

lemma binaryOperator_bitwise_unlisted_token:
  "binaryOperator (\<lambda>_. BITWISE) (Argument 0 FloatTy) (Argument 1 FloatTy) (OtherToken 0) []
     (Some [])
     = (Inl LLVMTokenError,
        [CastInst CreateFPToSI (Argument 1 FloatTy) (IntegerTy 64),
         CastInst CreateFPToSI (Argument 0 FloatTy) (IntegerTy 64)],
        Some ''Implicit cast from float to int.'')"
  by (simp add: binaryOperator_def arithmeticConversion_def llvmArithmeticConversion_def
        LLVMType_int64_def CreateCast_def insert_instruction_def binaryOperator_apply_def
        llvmBinaryConversion_def setWarning_def)

section \<open>Properties of array3Pack and arrayUnpack\<close>

lemma eval_value_reg_upd:
  "in_scope n v \<Longrightarrow> n \<le> k \<Longrightarrow>
   eval_value args (r(k \<mapsto> a), mem) v = eval_value args (r, mem) v"
  by (rule eval_value.cases [of "(args, (r, mem), v)"]) auto

lemma eval_value_mem_upd:
  "eval_value args (r, mem(p \<mapsto> a)) v = eval_value args (r, mem) v"
  by (rule eval_value.cases [of "(args, (r, mem), v)"]) auto

lemma array3Pack_same_type:
  assumes "ty \<in> set ax_scalar_types"
    and "getType x = ty" and "getType y = ty" and "getType z = ty"
  shows "array3Pack x y z builder =
     (Inr (Register (length builder) (PointerTy (ArrayTy ty 3))),
      builder @
        [AllocaInst (ArrayTy ty 3),
         GEP2Inst (Register (length builder) (PointerTy (ArrayTy ty 3))) 0 0,
         GEP2Inst (Register (length builder) (PointerTy (ArrayTy ty 3))) 0 1,
         GEP2Inst (Register (length builder) (PointerTy (ArrayTy ty 3))) 0 2,
         StoreInst x (Register (length builder + 1) (PointerTy ty)),
         StoreInst y (Register (length builder + 2) (PointerTy ty)),
         StoreInst z (Register (length builder + 3) (PointerTy ty))])"
proof -
  have tp: "typePrecedence ty ty = Inr ty"
    using assms(1) unfolding ax_scalar_cases
    by (elim disjE) (simp_all add: typePrecedence_def isScalarType_def)
  have sc: "isIntegerTy ty \<or> isFloatingPointTy ty"
    using assms(1) unfolding ax_scalar_cases by (elim disjE) simp_all
  have ac: "\<And>v b. getType v = ty \<Longrightarrow> arithmeticConversion v ty b = (Inr v, b)"
    using sc by (simp add: arithmeticConversion_def)
  show ?thesis
    using assms(2-4)
    by (simp add: array3Pack_def tp ac CreateAlloca_def CreateConstGEP2_64_def CreateStore_def
          insert_instruction_def)
qed

lemma arrayUnpack_three:
  "arrayUnpack (Register n (PointerTy (ArrayTy ty 3))) [] b True =
     (Inr [Register (length b + 1) ty, Register (length b + 3) ty, Register (length b + 5) ty],
      b @ [GEP2Inst (Register n (PointerTy (ArrayTy ty 3))) 0 0,
           LoadInst (Register (length b) (PointerTy ty)),
           GEP2Inst (Register n (PointerTy (ArrayTy ty 3))) 0 1,
           LoadInst (Register (length b + 2) (PointerTy ty)),
           GEP2Inst (Register n (PointerTy (ArrayTy ty 3))) 0 2,
           LoadInst (Register (length b + 4) (PointerTy ty))])"
  by (simp add: arrayUnpack_def CreateConstGEP2_64_def CreateLoad_def insert_instruction_def
        numeral_3_eq_3)


lemma exec_pack_unpack:
  assumes sx: "in_scope n x" and sy: "in_scope n y" and sz: "in_scope n z"
    and ex: "eval_value args m x = Some vx"
    and ey: "eval_value args m y = Some vy"
    and ez: "eval_value args m z = Some vz"
  shows "map (eval_after args n
           [AllocaInst (ArrayTy ty 3),
            GEP2Inst (Register n (PointerTy (ArrayTy ty 3))) 0 0,
            GEP2Inst (Register n (PointerTy (ArrayTy ty 3))) 0 1,
            GEP2Inst (Register n (PointerTy (ArrayTy ty 3))) 0 2,
            StoreInst x (Register (n + 1) (PointerTy ty)),
            StoreInst y (Register (n + 2) (PointerTy ty)),
            StoreInst z (Register (n + 3) (PointerTy ty)),
            GEP2Inst (Register n (PointerTy (ArrayTy ty 3))) 0 0,
            LoadInst (Register (n + 7) (PointerTy ty)),
            GEP2Inst (Register n (PointerTy (ArrayTy ty 3))) 0 1,
            LoadInst (Register (n + 9) (PointerTy ty)),
            GEP2Inst (Register n (PointerTy (ArrayTy ty 3))) 0 2,
            LoadInst (Register (n + 11) (PointerTy ty))] m)
           [Register (n + 8) ty, Register (n + 10) ty, Register (n + 12) ty]
         = [Some vx, Some vy, Some vz]"
proof -
  have rx: "\<And>k r a mem. n \<le> k \<Longrightarrow> eval_value args (r(k \<mapsto> a), mem) x = eval_value args (r, mem) x"
    using sx by (rule eval_value_reg_upd)
  have ry: "\<And>k r a mem. n \<le> k \<Longrightarrow> eval_value args (r(k \<mapsto> a), mem) y = eval_value args (r, mem) y"
    using sy by (rule eval_value_reg_upd)
  have rz: "\<And>k r a mem. n \<le> k \<Longrightarrow> eval_value args (r(k \<mapsto> a), mem) z = eval_value args (r, mem) z"
    using sz by (rule eval_value_reg_upd)
  show ?thesis
    using ex ey ez
    by (simp add: eval_after_def rx ry rz eval_value_mem_upd)
qed

text \<open>
  Claim C9. For three loaded values \<open>x\<close>, \<open>y\<close>, \<open>z\<close> of one scalar type of the precedence
  order, \<open>array3Pack\<close> inserts an allocation, three element pointers and three stores of
  \<open>x\<close>, \<open>y\<close>, \<open>z\<close> themselves (no conversion), and \<open>arrayUnpack\<close> with loading on the
  returned pointer yields three loads whose values, when the inserted code runs, are the
  values of \<open>x\<close>, \<open>y\<close>, \<open>z\<close>.
\<close>

theorem array3Pack_unpack_roundtrip:
  assumes "ty \<in> set ax_scalar_types"
    and "getType x = ty" and "getType y = ty" and "getType z = ty"
    and "in_scope (length builder) x" and "in_scope (length builder) y"
    and "in_scope (length builder) z"
    and "eval_value args m x = Some vx"
    and "eval_value args m y = Some vy"
    and "eval_value args m z = Some vz"
  shows "let n = length builder;
             vec = Register n (PointerTy (ArrayTy ty 3));
             pack = [AllocaInst (ArrayTy ty 3),
                     GEP2Inst vec 0 0, GEP2Inst vec 0 1, GEP2Inst vec 0 2,
                     StoreInst x (Register (n + 1) (PointerTy ty)),
                     StoreInst y (Register (n + 2) (PointerTy ty)),
                     StoreInst z (Register (n + 3) (PointerTy ty))];
             unpack = [GEP2Inst vec 0 0, LoadInst (Register (n + 7) (PointerTy ty)),
                       GEP2Inst vec 0 1, LoadInst (Register (n + 9) (PointerTy ty)),
                       GEP2Inst vec 0 2, LoadInst (Register (n + 11) (PointerTy ty))];
             loaded = [Register (n + 8) ty, Register (n + 10) ty, Register (n + 12) ty]
         in array3Pack x y z builder = (Inr vec, builder @ pack) \<and>
            arrayUnpack vec [] (builder @ pack) True = (Inr loaded, builder @ pack @ unpack) \<and>
            map (eval_after args n (pack @ unpack) m) loaded = [Some vx, Some vy, Some vz]"
proof -
  note pack = array3Pack_same_type [OF assms(1-4), of builder]
  note run = exec_pack_unpack [OF assms(5-10), of ty]
  show ?thesis
    unfolding Let_def
    using pack run by (simp add: arrayUnpack_three)
qed

theorem array3Pack_unpack_roundtrip_witness:
  "FloatTy \<in> set ax_scalar_types \<and>
   array3Pack (Argument 0 FloatTy) (Argument 1 FloatTy) (Argument 2 FloatTy) [] =
     (Inr (Register 0 (PointerTy (ArrayTy FloatTy 3))),
      [AllocaInst (ArrayTy FloatTy 3),
       GEP2Inst (Register 0 (PointerTy (ArrayTy FloatTy 3))) 0 0,
       GEP2Inst (Register 0 (PointerTy (ArrayTy FloatTy 3))) 0 1,
       GEP2Inst (Register 0 (PointerTy (ArrayTy FloatTy 3))) 0 2,
       StoreInst (Argument 0 FloatTy) (Register 1 (PointerTy FloatTy)),
       StoreInst (Argument 1 FloatTy) (Register 2 (PointerTy FloatTy)),
       StoreInst (Argument 2 FloatTy) (Register 3 (PointerTy FloatTy))]) \<and>
   map (eval_after (\<lambda>i. RFloat (FFinite (of_nat i))) 0
          [AllocaInst (ArrayTy FloatTy 3),
           GEP2Inst (Register 0 (PointerTy (ArrayTy FloatTy 3))) 0 0,
           GEP2Inst (Register 0 (PointerTy (ArrayTy FloatTy 3))) 0 1,
           GEP2Inst (Register 0 (PointerTy (ArrayTy FloatTy 3))) 0 2,
           StoreInst (Argument 0 FloatTy) (Register 1 (PointerTy FloatTy)),
           StoreInst (Argument 1 FloatTy) (Register 2 (PointerTy FloatTy)),
           StoreInst (Argument 2 FloatTy) (Register 3 (PointerTy FloatTy)),
           GEP2Inst (Register 0 (PointerTy (ArrayTy FloatTy 3))) 0 0,
           LoadInst (Register 7 (PointerTy FloatTy)),
           GEP2Inst (Register 0 (PointerTy (ArrayTy FloatTy 3))) 0 1,
           LoadInst (Register 9 (PointerTy FloatTy)),
           GEP2Inst (Register 0 (PointerTy (ArrayTy FloatTy 3))) 0 2,
           LoadInst (Register 11 (PointerTy FloatTy))]
          (Map.empty, Map.empty))
       [Register 8 FloatTy, Register 10 FloatTy, Register 12 FloatTy]
     = [Some (RFloat (FFinite 0)), Some (RFloat (FFinite 1)), Some (RFloat (FFinite 2))]"
proof -
  have a: "FloatTy \<in> set ax_scalar_types" by (simp add: ax_scalar_types_def)
  have t: "getType (Argument 0 FloatTy) = FloatTy" "getType (Argument 1 FloatTy) = FloatTy"
    "getType (Argument 2 FloatTy) = FloatTy" by simp_all
  have s: "in_scope (length ([]::IRBuilder)) (Argument 0 FloatTy)"
    "in_scope (length ([]::IRBuilder)) (Argument 1 FloatTy)"
    "in_scope (length ([]::IRBuilder)) (Argument 2 FloatTy)" by simp_all
  have e: "eval_value (\<lambda>i. RFloat (FFinite (of_nat i))) (Map.empty, Map.empty) (Argument 0 FloatTy)
             = Some (RFloat (FFinite 0))"
    "eval_value (\<lambda>i. RFloat (FFinite (of_nat i))) (Map.empty, Map.empty) (Argument 1 FloatTy)
             = Some (RFloat (FFinite 1))"
    "eval_value (\<lambda>i. RFloat (FFinite (of_nat i))) (Map.empty, Map.empty) (Argument 2 FloatTy)
             = Some (RFloat (FFinite 2))" by simp_all
  show ?thesis
    using a array3Pack_unpack_roundtrip [OF a t s e]
    by (simp add: Let_def numeral_2_eq_2)
qed


end

